theory Spec2Isabelle
  imports Main "HOL-Library.AList"
begin

section \<open>JavaScript values\<close>

text \<open>
  The module \<^verbatim>\<open>src/commands/prep/index.js\<close> works on parsed JSON and YAML documents,
  on strings and on the file system. A parsed document is a \<open>jsval\<close>; an object keeps
  its properties as an association list in insertion order (looked up with \<open>map_of\<close>,
  so the first binding of a key is the one that counts). Numbers are integers here;
  fractional numbers do not occur in any value the module inspects.
\<close>

datatype jsval =
    JUndefined
  | JNull
  | JBool bool
  | JNum int
  | JStr string
  | JArr "jsval list"
  | JObj "(string \<times> jsval) list"

text \<open>
  A value that is thrown or handed to a callback as its error: an \<open>Error\<close> object
  (its name and its message), or the bare string that \<open>prepWeb\<close> passes.
\<close>

datatype jserr = JsErr string string | JsStr string

definition newError :: "string \<Rightarrow> jserr" where
  "newError msg = JsErr ''Error'' msg"

definition typeError :: "string \<Rightarrow> jserr" where
  "typeError msg = JsErr ''TypeError'' msg"

definition nl :: string where
  "nl = [CHR 0x0A]"

definition tab :: string where
  "tab = [CHR 0x09]"

text \<open>String conversion of an error inside a template literal.\<close>

fun errToString :: "jserr \<Rightarrow> string" where
  "errToString (JsErr name msg) = name @ '': '' @ msg"
| "errToString (JsStr s) = s"

text \<open>Truthiness, as \<open>&&\<close>, \<open>||\<close>, \<open>if\<close> and \<open>!\<close> read a value.\<close>

fun truthy :: "jsval \<Rightarrow> bool" where
  "truthy JUndefined = False"
| "truthy JNull = False"
| "truthy (JBool b) = b"
| "truthy (JNum n) = (n \<noteq> 0)"
| "truthy (JStr s) = (s \<noteq> [])"
| "truthy (JArr xs) = True"
| "truthy (JObj kvs) = True"

text \<open>
  Reading a property \<open>v.k\<close> for a name \<open>k\<close> that is neither an array index nor
  \<open>length\<close> (every property name the module reads is such a name): a \<open>TypeError\<close>
  on \<open>null\<close> and \<open>undefined\<close>, the binding on an object, \<open>undefined\<close> elsewhere.
\<close>

fun getProp :: "jsval \<Rightarrow> string \<Rightarrow> jserr + jsval" where
  "getProp JUndefined k = Inl (typeError (''Cannot read property '' @ k @ '' of undefined''))"
| "getProp JNull k = Inl (typeError (''Cannot read property '' @ k @ '' of null''))"
| "getProp (JObj kvs) k = Inr (case map_of kvs k of Some v \<Rightarrow> v | None \<Rightarrow> JUndefined)"
| "getProp v k = Inr JUndefined"

text \<open>Decimal digits of a natural number, for the string conversion of numbers.\<close>

definition digit :: "nat \<Rightarrow> char" where
  "digit n = ''0123456789'' ! n"

fun show_nat :: "nat \<Rightarrow> string" where
  "show_nat n =
     (if n < 10 then [digit n]
      else show_nat (n div 10) @ [digit (n mod 10)])"

declare show_nat.simps [simp del]

definition show_int :: "int \<Rightarrow> string" where
  "show_int i = (if i < 0 then ''-'' @ show_nat (nat (- i)) else show_nat (nat i))"

fun join :: "string \<Rightarrow> string list \<Rightarrow> string" where
  "join sep [] = []"
| "join sep [x] = x"
| "join sep (x # y # ys) = x @ sep @ join sep (y # ys)"

text \<open>
  String conversion of a value inside a template literal (\<open>`${v}`\<close>): an array joins
  its elements with commas, \<open>null\<close> and \<open>undefined\<close> elements as empty strings.
\<close>

fun toStr :: "jsval \<Rightarrow> string" where
  "toStr JUndefined = ''undefined''"
| "toStr JNull = ''null''"
| "toStr (JBool b) = (if b then ''true'' else ''false'')"
| "toStr (JNum n) = show_int n"
| "toStr (JStr s) = s"
| "toStr (JArr xs) =
     join '','' (map (\<lambda>v. if v = JUndefined \<or> v = JNull then [] else toStr v) xs)"
| "toStr (JObj kvs) = ''[object Object]''"

text \<open>
  The own enumerable properties that an object spread \<open>{ ...v }\<close> copies: those of
  an object, the indexed elements of an array and of a string, none of any other
  value (\<open>null\<close> and \<open>undefined\<close> included).
\<close>

fun indexed :: "nat \<Rightarrow> 'a list \<Rightarrow> (string \<times> 'a) list" where
  "indexed i [] = []"
| "indexed i (x # xs) = (show_nat i, x) # indexed (Suc i) xs"

fun ownProps :: "jsval \<Rightarrow> (string \<times> jsval) list" where
  "ownProps (JObj kvs) = kvs"
| "ownProps (JArr xs) = indexed 0 xs"
| "ownProps (JStr s) = indexed 0 (map (\<lambda>c. JStr [c]) s)"
| "ownProps v = []"

text \<open>
  Assigning a property of an object literal that is being built, or of an object:
  the binding keeps its place when the key is there and goes last otherwise.
\<close>

definition setProp :: "string \<Rightarrow> jsval \<Rightarrow> (string \<times> jsval) list \<Rightarrow> (string \<times> jsval) list" where
  "setProp k v kvs = AList.update k v kvs"

section \<open>Strings\<close>

text \<open>\<open>String.prototype.split\<close> with a one-character separator: never empty.\<close>

fun split_on :: "char \<Rightarrow> string \<Rightarrow> string list" where
  "split_on c [] = [[]]"
| "split_on c (x # xs) =
     (if x = c then [] # split_on c xs
      else (case split_on c xs of
              [] \<Rightarrow> [[x]]
            | w # ws \<Rightarrow> (x # w) # ws))"

definition is_space :: "char \<Rightarrow> bool" where
  "is_space c = (c \<in> set [CHR '' '', CHR 0x09, CHR 0x0A, CHR 0x0B, CHR 0x0C, CHR 0x0D])"

definition trim :: "string \<Rightarrow> string" where
  "trim s = rev (dropWhile is_space (rev (dropWhile is_space s)))"

text \<open>\<open>s.split('-').join('')\<close>: the string without its hyphens.\<close>

definition strip_hyphens :: "string \<Rightarrow> string" where
  "strip_hyphens s = join [] (split_on CHR ''-'' s)"

section \<open>The file system\<close>

text \<open>
  A file system is an association list from paths to nodes. \<open>path.join\<close> is modelled
  without its normalisation of \<open>.\<close> and \<open>..\<close> segments. An operation fails
  for the reasons the file system itself gives (a missing file, a directory where a
  file is needed); permissions and a missing parent directory are not modelled, and a
  failing operation changes nothing.
\<close>

type_synonym path = string

datatype node = File string | Dir

type_synonym filesys = "(path \<times> node) list"

definition path_join :: "path \<Rightarrow> string \<Rightarrow> path" where
  "path_join a b = a @ ''/'' @ b"

definition sysErr :: "string \<Rightarrow> path \<Rightarrow> jserr" where
  "sysErr code p = JsErr ''Error'' (code @ '': '' @ p)"

definition readFileSync :: "filesys \<Rightarrow> path \<Rightarrow> jserr + string" where
  "readFileSync f p =
     (case map_of f p of
        Some (File c) \<Rightarrow> Inr c
      | Some Dir \<Rightarrow> Inl (sysErr ''EISDIR'' p)
      | None \<Rightarrow> Inl (sysErr ''ENOENT'' p))"

definition writeFileSync :: "filesys \<Rightarrow> path \<Rightarrow> string \<Rightarrow> jserr + filesys" where
  "writeFileSync f p c =
     (case map_of f p of
        Some Dir \<Rightarrow> Inl (sysErr ''EISDIR'' p)
      | _ \<Rightarrow> Inr (AList.update p (File c) f))"

definition copyFileSync :: "filesys \<Rightarrow> path \<Rightarrow> path \<Rightarrow> jserr + filesys" where
  "copyFileSync f src dst =
     (case map_of f src of
        Some (File c) \<Rightarrow>
          (case map_of f dst of
             Some Dir \<Rightarrow> Inl (sysErr ''EISDIR'' dst)
           | _ \<Rightarrow> Inr (AList.update dst (File c) f))
      | Some Dir \<Rightarrow> Inl (sysErr ''EISDIR'' src)
      | None \<Rightarrow> Inl (sysErr ''ENOENT'' src))"

definition is_child :: "path \<Rightarrow> path \<Rightarrow> bool" where
  "is_child d p =
     (take (length d + 1) p = d @ ''/'' \<and> drop (length d + 1) p \<noteq> []
      \<and> CHR ''/'' \<notin> set (drop (length d + 1) p))"

definition readdirSync :: "filesys \<Rightarrow> path \<Rightarrow> jserr + string list" where
  "readdirSync f d =
     (case map_of f d of
        Some Dir \<Rightarrow>
          Inr (remdups (map (drop (length d + 1)) (filter (is_child d) (map fst f))))
      | Some (File c) \<Rightarrow> Inl (sysErr ''ENOTDIR'' d)
      | None \<Rightarrow> Inl (sysErr ''ENOENT'' d))"

definition lstatSync :: "filesys \<Rightarrow> path \<Rightarrow> jserr + node" where
  "lstatSync f p =
     (case map_of f p of
        Some n \<Rightarrow> Inr n
      | None \<Rightarrow> Inl (sysErr ''ENOENT'' p))"

fun isFile :: "node \<Rightarrow> bool" where
  "isFile (File c) = True"
| "isFile Dir = False"

fun isDirectory :: "node \<Rightarrow> bool" where
  "isDirectory (File c) = False"
| "isDirectory Dir = True"

definition unlinkSync :: "filesys \<Rightarrow> path \<Rightarrow> jserr + filesys" where
  "unlinkSync f p =
     (case map_of f p of
        Some (File c) \<Rightarrow> Inr (AList.delete p f)
      | Some Dir \<Rightarrow> Inl (sysErr ''EISDIR'' p)
      | None \<Rightarrow> Inl (sysErr ''ENOENT'' p))"

section \<open>The environment\<close>

text \<open>
  What the module imports and does not define: \<open>JSON.parse\<close> and
  \<open>JSON.stringify\<close>, js-yaml's \<open>safeLoad\<close> and \<open>safeDump\<close> (\<open>None\<close> where
  they throw), the outcome of a subprocess (by its command line and working
  directory), and the identifiers that successive calls of \<open>uuid()\<close> return. The
  theorems hold for every environment; a subprocess is taken not to touch the files
  the module itself reads and writes.
\<close>

record env =
  jsonParse :: "string \<Rightarrow> jsval option"
  jsonStringify :: "jsval \<Rightarrow> string"
  yamlLoad :: "string \<Rightarrow> jsval option"
  yamlDump :: "jsval \<Rightarrow> string option"
  procOk :: "string \<Rightarrow> path \<Rightarrow> bool"
  uuid :: "nat \<Rightarrow> string"

section \<open>The state of a run\<close>

text \<open>
  Callbacks are continuations kept as data. \<open>packAndInstall\<close> is called from two
  places, and its callback is the function literal written there: \<open>KApi\<close> is the one
  of \<open>prepApi\<close> (line 163; it closes over the experiment's directory, the
  controller's directory and the controller's configuration), \<open>KWeb\<close> the one of
  \<open>prepWeb\<close> (line 177; the experiment's directory and its configuration).
\<close>

datatype kont = KApi path path jsval | KWeb path jsval

text \<open>
  An asynchronous operation that has been started and whose callback has not run yet.
  \<open>PPack packDir installDir op k\<close> is a step of \<open>packAndInstall\<close>: reading
  \<open>package.json\<close>, writing it back (the unique name, the new text), or the
  \<open>npm run build\<close> subprocess (the unique name). \<open>PDocker\<close> is the
  \<open>docker build\<close> of \<open>prepWorker\<close> (the experiment's directory, the command
  line, the worker's base service, the worker's name). The last two are the writes of the linking step.
\<close>

datatype packop = ReadPackageJson | WritePackageJson string string | NpmRunBuild string

datatype pend =
    PPack path path packop kont
  | PDocker path string jsval string
  | PWriteControllers string
  | PWriteCompose string

text \<open>
  What the outside sees of a run, in order: a subprocess started with \<open>exec\<close> or run
  with \<open>execSync\<close> (command line, working directory; the empty path when none is
  given), a line written with \<open>console.log\<close> or \<open>console.error\<close>, and a call
  of the callback that was handed to the module's default export (its error argument).
\<close>

datatype event =
    Exec string path
  | ExecSync string path
  | Log string
  | LogError string
  | Callback "jserr option"

text \<open>
  The mutable state: the file system, the trace, the number of \<open>uuid()\<close> calls so
  far, an exception that nothing caught (it ends the process), the operations in
  flight, and the variables of the closures. \<open>tasks\<close>, \<open>newApiControllers\<close>,
  \<open>newWebPageIncludes\<close> and \<open>newWorkerServices\<close> are those of the default export;
  \<open>scopes\<close> holds, for each call of \<open>prepApi\<close> (by the experiment's directory), its
  own \<open>tasks\<close> and \<open>contrListAppendix\<close>.
\<close>

record state =
  fs :: filesys
  trace :: "event list"
  drawn :: nat
  uncaught :: "jserr option"
  pending :: "pend list"
  tasks :: "bool list"
  newApiControllers :: "jsval list"
  newWebPageIncludes :: "(string \<times> string) list"
  newWorkerServices :: "(string \<times> jsval) list"
  scopes :: "(path \<times> bool list \<times> jsval list) list"

definition emit :: "event \<Rightarrow> state \<Rightarrow> state" where
  "emit e s = s\<lparr>trace := trace s @ [e]\<rparr>"

text \<open>
  \<open>child_process.execSync(command, options)\<close> runs the command to its end; it throws
  when the command fails. It has no callback parameter: a third argument is ignored.
\<close>

definition execSync :: "env \<Rightarrow> string \<Rightarrow> path \<Rightarrow> state \<Rightarrow> jserr option \<times> state" where
  "execSync E cmd cwd s =
     (if procOk E cmd cwd then None else Some (newError (''Command failed: '' @ cmd)),
      emit (ExecSync cmd cwd) s)"

text \<open>Sequencing of statements that may throw: the state at the throw is kept.\<close>

definition andThen ::
  "jserr option \<times> state \<Rightarrow> (state \<Rightarrow> jserr option \<times> state) \<Rightarrow> jserr option \<times> state" where
  "andThen r f = (case r of (Some e, s) \<Rightarrow> (Some e, s) | (None, s) \<Rightarrow> f s)"

definition writeFileSyncS :: "path \<Rightarrow> string \<Rightarrow> state \<Rightarrow> jserr option \<times> state" where
  "writeFileSyncS p c s =
     (case writeFileSync (fs s) p c of
        Inl e \<Rightarrow> (Some e, s)
      | Inr f \<Rightarrow> (None, s\<lparr>fs := f\<rparr>))"

section \<open>The module list of the front end\<close>

text \<open>
  \<open>getModuleList\<close> (line 66): the second word of every line whose first word is
  \<open>import\<close>; \<open>undefined\<close> when the line has no second word.
\<close>

definition importOf :: "string \<Rightarrow> jsval list" where
  "importOf line =
     (case split_on CHR '' '' line of
        w # ws \<Rightarrow>
          (if w = ''import'' then [case ws of [] \<Rightarrow> JUndefined | m # ms \<Rightarrow> JStr m] else [])
      | [] \<Rightarrow> [])"

definition getModuleList :: "filesys \<Rightarrow> path \<Rightarrow> jserr + jsval list" where
  "getModuleList f file =
     (case readFileSync f file of
        Inl e \<Rightarrow> Inl e
      | Inr content \<Rightarrow> Inr (concat (map importOf (split_on CHR 0x0A (trim content)))))"

text \<open>
  \<open>includeInModuleList\<close> (line 75): an import line in front, the last line replaced by
  the new entry and the closing bracket.
\<close>

definition includeInModuleList :: "string \<Rightarrow> string \<Rightarrow> path \<Rightarrow> state \<Rightarrow> jserr option \<times> state" where
  "includeInModuleList importName listAppendix file s =
     (case readFileSync (fs s) file of
        Inl e \<Rightarrow> (Some e, s)
      | Inr content \<Rightarrow>
          (let lineSplit = split_on CHR 0x0A (trim content);
               allButEnd = take (length lineSplit - 1) lineSplit;
               newData = ''import '' @ importName @ '' from '' @ [CHR 0x27] @ importName
                         @ [CHR 0x27] @ '';'' @ nl @ join nl allButEnd @ nl @ tab
                         @ listAppendix @ '','' @ nl @ ''];''
           in writeFileSyncS file newData s))"

section \<open>cleanUpSync\<close>

text \<open>
  \<open>cleanUpSync\<close> (line 92) in its four parts. It returns the exception it throws, if
  any, with the state at that point: what was written before stays written.
\<close>

definition uninstall :: "env \<Rightarrow> path \<Rightarrow> string \<Rightarrow> jsval \<Rightarrow> state \<Rightarrow> state" where
  \<comment> \<open>\<open>try { execSync(`npm uninstall ${m} --save`, { cwd }) } catch (e) { console.error }\<close>\<close>
  "uninstall E cwd what m s =
     (case execSync E (''npm uninstall '' @ toStr m @ '' --save'') cwd s of
        (Some e, s') \<Rightarrow> emit (LogError (''Failed to uninstall '' @ what @ '' module: '' @ errToString e)) s'
      | (None, s') \<Rightarrow> s')"

fun uninstallControllers :: "env \<Rightarrow> path \<Rightarrow> jsval list \<Rightarrow> state \<Rightarrow> jserr option \<times> state" where
  "uninstallControllers E cwd [] s = (None, s)"
| "uninstallControllers E cwd (contr # rest) s =
     (case getProp contr ''name'' of
        Inl e \<Rightarrow> (Some e, s)
      | Inr moduleName \<Rightarrow>
          (case getProp contr ''mountPath'' of
             Inl e \<Rightarrow> (Some e, s)
           | Inr mountPath \<Rightarrow>
               uninstallControllers E cwd rest
                 (uninstall E cwd ''API controller'' moduleName
                    (emit (Log (''Cleaning API controller '' @ toStr mountPath @ '' (''
                                @ toStr moduleName @ '')'')) s))))"

definition resetControllers :: "env \<Rightarrow> path \<Rightarrow> state \<Rightarrow> jserr option \<times> state" where
  "resetControllers E coreDir s =
     (let controllersJsonFile = path_join coreDir ''api/src/controllers.json'' in
      case readFileSync (fs s) controllersJsonFile of
        Inl e \<Rightarrow> (Some e, s)
      | Inr content \<Rightarrow>
          (case jsonParse E content of
             None \<Rightarrow> (Some (JsErr ''SyntaxError'' ''JSON.parse''), s)
           | Some (JArr oldContrList) \<Rightarrow>
               andThen (uninstallControllers E (path_join coreDir ''api'') oldContrList s)
                 (writeFileSyncS controllersJsonFile (jsonStringify E (JArr [])))
           | Some v \<Rightarrow> (Some (typeError ''oldContrList.forEach is not a function''), s)))"

fun uninstallPages :: "env \<Rightarrow> path \<Rightarrow> jsval list \<Rightarrow> state \<Rightarrow> state" where
  "uninstallPages E cwd [] s = s"
| "uninstallPages E cwd (pageModule # rest) s =
     uninstallPages E cwd rest
       (uninstall E cwd ''web page'' pageModule
          (emit (Log (''Cleaning web page ('' @ toStr pageModule @ '')'')) s))"

definition emptyModuleList :: string where
  "emptyModuleList = ''export default ['' @ nl @ ''];''"

definition resetWebPages :: "env \<Rightarrow> path \<Rightarrow> state \<Rightarrow> jserr option \<times> state" where
  "resetWebPages E coreDir s =
     (let webPageAttachListFile = path_join coreDir ''front-end/src/experiments.js'' in
      case getModuleList (fs s) webPageAttachListFile of
        Inl e \<Rightarrow> (Some e, s)
      | Inr oldPages \<Rightarrow>
          writeFileSyncS webPageAttachListFile emptyModuleList
            (uninstallPages E (path_join coreDir ''front-end'') oldPages s))"

fun unlinkFiles :: "path \<Rightarrow> string list \<Rightarrow> state \<Rightarrow> jserr option \<times> state" where
  "unlinkFiles dir [] s = (None, s)"
| "unlinkFiles dir (tempPackage # rest) s =
     (let maybeFile = path_join dir tempPackage in
      case lstatSync (fs s) maybeFile of
        Inl e \<Rightarrow> (Some e, s)
      | Inr n \<Rightarrow>
          (if isFile n then
             (case unlinkSync (fs s) maybeFile of
                Inl e \<Rightarrow> (Some e, s)
              | Inr f \<Rightarrow> unlinkFiles dir rest (s\<lparr>fs := f\<rparr>))
           else unlinkFiles dir rest s))"

definition cleanDir :: "path \<Rightarrow> state \<Rightarrow> jserr option \<times> state" where
  "cleanDir dir s =
     (case readdirSync (fs s) dir of
        Inl e \<Rightarrow> (Some e, s)
      | Inr names \<Rightarrow> unlinkFiles dir names s)"

definition removeTempPackages :: "path \<Rightarrow> state \<Rightarrow> state" where
  \<comment> \<open>one \<open>try\<close> around both directories; the \<open>catch\<close> logs and goes on\<close>
  "removeTempPackages coreDir s =
     (case andThen (cleanDir (path_join coreDir ''api/tempPackages'')
                      (emit (Log ''Cleaning temporary files'') s))
             (cleanDir (path_join coreDir ''front-end/tempPackages'')) of
        (Some e, s') \<Rightarrow>
          emit (LogError (''Failed to remove old temporary files: '' @ errToString e)) s'
      | (None, s') \<Rightarrow> s')"

text \<open>
  The test of line 136, \<open>serviceContent.labels && serviceContent.labels.isPushkinWorker\<close>,
  read for its truthiness.
\<close>

definition isManaged :: "jsval \<Rightarrow> jserr + bool" where
  "isManaged serviceContent =
     (case getProp serviceContent ''labels'' of
        Inl e \<Rightarrow> Inl e
      | Inr labels \<Rightarrow>
          (if truthy labels then
             (case getProp labels ''isPushkinWorker'' of
                Inl e \<Rightarrow> Inl e
              | Inr m \<Rightarrow> Inr (truthy m))
           else Inr False))"

text \<open>
  The loop of line 134 over \<open>Object.keys(compFile.services)\<close>, for services that
  are an object: each key is read from the object as it is then, and deleted when its
  entry bears the marker.
\<close>

fun removeManaged :: "string list \<Rightarrow> (string \<times> jsval) list \<Rightarrow> jserr + (string \<times> jsval) list" where
  "removeManaged [] services = Inr services"
| "removeManaged (service # rest) services =
     (case isManaged (case map_of services service of Some v \<Rightarrow> v | None \<Rightarrow> JUndefined) of
        Inl e \<Rightarrow> Inl e
      | Inr m \<Rightarrow> removeManaged rest (if m then AList.delete service services else services))"

text \<open>The same loop over the indices of an array: \<open>delete\<close> leaves a hole.\<close>

fun removeManagedElems :: "jsval list \<Rightarrow> jserr + jsval list" where
  "removeManagedElems [] = Inr []"
| "removeManagedElems (x # xs) =
     (case isManaged x of
        Inl e \<Rightarrow> Inl e
      | Inr m \<Rightarrow>
          (case removeManagedElems xs of
             Inl e \<Rightarrow> Inl e
           | Inr ys \<Rightarrow> Inr ((if m then JUndefined else x) # ys)))"

definition withServices :: "jsval \<Rightarrow> jsval \<Rightarrow> jsval" where
  "withServices compFile services =
     (case compFile of
        JObj props \<Rightarrow> JObj (AList.update ''services'' services props)
      | v \<Rightarrow> v)"

text \<open>
  Lines 134 to 138 for every shape of \<open>compFile.services\<close>: \<open>Object.keys\<close> throws
  on \<open>null\<close> and \<open>undefined\<close>, gives the indices of an array and of a string (whose
  characters bear no marker) and nothing for a number or a boolean.
\<close>

definition cleanWorkers :: "jsval \<Rightarrow> jserr + jsval" where
  "cleanWorkers compFile =
     (case getProp compFile ''services'' of
        Inl e \<Rightarrow> Inl e
      | Inr JUndefined \<Rightarrow> Inl (typeError ''Cannot convert undefined or null to object'')
      | Inr JNull \<Rightarrow> Inl (typeError ''Cannot convert undefined or null to object'')
      | Inr (JObj services) \<Rightarrow>
          (case removeManaged (remdups (map fst services)) services of
             Inl e \<Rightarrow> Inl e
           | Inr services' \<Rightarrow> Inr (withServices compFile (JObj services')))
      | Inr (JArr xs) \<Rightarrow>
          (case removeManagedElems xs of
             Inl e \<Rightarrow> Inl e
           | Inr ys \<Rightarrow> Inr (withServices compFile (JArr ys)))
      | Inr v \<Rightarrow> Inr compFile)"

definition removeWorkers :: "env \<Rightarrow> path \<Rightarrow> state \<Rightarrow> jserr option \<times> state" where
  "removeWorkers E coreDir s =
     (let composeFileLoc = path_join coreDir ''docker-compose.dev.yml'' in
      case readFileSync (fs s) composeFileLoc of
        Inl e \<Rightarrow> (Some e, s)
      | Inr content \<Rightarrow>
          (case yamlLoad E content of
             None \<Rightarrow> (Some (JsErr ''YAMLException'' ''safeLoad''), s)
           | Some compFile \<Rightarrow>
               (let s1 = emit (Log ''Cleaning workers'') s in
                case cleanWorkers compFile of
                  Inl e \<Rightarrow> (Some e, s1)
                | Inr compFile' \<Rightarrow>
                    (case yamlDump E compFile' of
                       None \<Rightarrow> (Some (JsErr ''YAMLException'' ''safeDump''), s1)
                     | Some newCompData \<Rightarrow> writeFileSyncS composeFileLoc newCompData s1))))"

definition cleanUpSync :: "env \<Rightarrow> path \<Rightarrow> state \<Rightarrow> jserr option \<times> state" where
  "cleanUpSync E coreDir s =
     andThen (andThen (resetControllers E coreDir s) (resetWebPages E coreDir))
       (\<lambda>s'. removeWorkers E coreDir (removeTempPackages coreDir s'))"

section \<open>Unique names\<close>

text \<open>
  The two places that make a name: line 25 in \<open>packAndInstall\<close> (called for an API
  controller and for a web page alike) and line 193 in \<open>prepWorker\<close>. The argument
  is what \<open>uuid()\<close> returned.
\<close>

definition componentName :: "string \<Rightarrow> string" where
  "componentName u = ''pushkinComponent'' @ strip_hyphens u"

definition workerImageName :: "string \<Rightarrow> string" where
  "workerImageName u = ''pushkinworker'' @ strip_hyphens u"

definition drawUuid :: "env \<Rightarrow> state \<Rightarrow> string \<times> state" where
  "drawUuid E s = (uuid E (drawn s), s\<lparr>drawn := Suc (drawn s)\<rparr>)"

definition throwS :: "jserr \<Rightarrow> state \<Rightarrow> state" where
  "throwS e s = s\<lparr>uncaught := Some e\<rparr>"

definition thenDo :: "(state \<Rightarrow> state) \<Rightarrow> (state \<Rightarrow> state) \<Rightarrow> state \<Rightarrow> state" where
  \<comment> \<open>two statements in a row: the second does not run when the first threw\<close>
  "thenDo f g s = (let s' = f s in if uncaught s' = None then g s' else s')"

text \<open>A property of a value that has been read from before, so that it cannot throw.\<close>

definition field :: "jsval \<Rightarrow> string \<Rightarrow> jsval" where
  "field v k = (case getProp v k of Inl e \<Rightarrow> JUndefined | Inr x \<Rightarrow> x)"

text \<open>\<open>path.join(a, b)\<close> throws a \<open>TypeError\<close> unless \<open>b\<close> is a string.\<close>

definition pathJoinV :: "path \<Rightarrow> jsval \<Rightarrow> jserr + path" where
  "pathJoinV a b =
     (case b of
        JStr x \<Rightarrow> Inr (path_join a x)
      | v \<Rightarrow> Inl (typeError ''The path argument must be of type string''))"

section \<open>packAndInstall\<close>

text \<open>
  \<open>packAndInstall\<close> (line 8) is a chain of callbacks. Its synchronous part makes the
  backup and starts the read; each later link is a step that runs when the operation
  before it has completed. A step ends in one of four ways: it started the next
  operation, it called the callback with an error (\<open>fail\<close>, line 10), it called the
  callback with the module's name, or it did neither.

  Line 35 hands the rest of the chain (moving the package, deleting the rewritten
  \<open>package.json\<close>, renaming the backup, calling the callback with the name) to
  \<open>execSync\<close> as a third argument. \<open>execSync\<close> takes a command and its options and
  calls nothing back, so that function never runs: after \<open>npm pack\<close> the step ends
  without a callback, and \<open>Succeeded\<close> is never the result of a step. A failing
  \<open>npm pack\<close> makes \<open>execSync\<close> throw inside the callback of \<open>exec\<close>, where
  nothing catches it.
\<close>

datatype packres = Started packop | Failed jserr | Succeeded string | Ended

definition packFail :: "path \<Rightarrow> path \<Rightarrow> string \<Rightarrow> jserr \<Rightarrow> jserr" where
  "packFail packDir installDir reason err =
     newError (reason @ nl @ tab @ ''('' @ packDir @ '', '' @ installDir @ ''):'' @ nl
               @ tab @ tab @ errToString err)"

definition packAndInstall :: "env \<Rightarrow> path \<Rightarrow> path \<Rightarrow> state \<Rightarrow> packres \<times> state" where
  "packAndInstall E packDir installDir s =
     (let packageJsonPath = path_join packDir ''package.json'';
          packageJsonBackup = path_join packDir ''package.json.bak''
      in case copyFileSync (fs s) packageJsonPath packageJsonBackup of
           Inl e \<Rightarrow> (Failed (packFail packDir installDir ''Failed to backup package.json'' e), s)
         | Inr f \<Rightarrow> (Started ReadPackageJson, s\<lparr>fs := f\<rparr>))"

text \<open>
  \<open>packageJson.name = uniqueName\<close> (line 26), in a module (strict code): it sets the
  property of an object, is lost on an array when the array is written out as JSON,
  and throws a \<open>TypeError\<close> on any other value.
\<close>

definition setName :: "string \<Rightarrow> jsval \<Rightarrow> jserr + jsval" where
  "setName uniqueName packageJson =
     (case packageJson of
        JObj kvs \<Rightarrow> Inr (JObj (setProp ''name'' (JStr uniqueName) kvs))
      | JArr xs \<Rightarrow> Inr (JArr xs)
      | v \<Rightarrow> Inl (typeError ''Cannot set property name''))"

fun packStep :: "env \<Rightarrow> path \<Rightarrow> path \<Rightarrow> packop \<Rightarrow> state \<Rightarrow> packres \<times> state" where
  "packStep E packDir installDir ReadPackageJson s =
     (case (case readFileSync (fs s) (path_join packDir ''package.json'') of
              Inl err \<Rightarrow> None
            | Inr data \<Rightarrow> jsonParse E data) of
        None \<Rightarrow>
          (Failed (packFail packDir installDir ''Failed to parse package.json''
                     (JsErr ''SyntaxError'' ''JSON.parse'')), s)
      | Some packageJson \<Rightarrow>
          (let (u, s1) = drawUuid E s;
               uniqueName = componentName u
           in case setName uniqueName packageJson of
                Inl e \<Rightarrow> (Ended, throwS e s1)
              | Inr packageJson' \<Rightarrow>
                  (Started (WritePackageJson uniqueName (jsonStringify E packageJson')), s1)))"
| "packStep E packDir installDir (WritePackageJson uniqueName data) s =
     (case writeFileSync (fs s) (path_join packDir ''package.json'') data of
        Inl err \<Rightarrow>
          (Failed (packFail packDir installDir ''Failed to write new package.json'' err), s)
      | Inr f \<Rightarrow>
          (Started (NpmRunBuild uniqueName), emit (Exec ''npm run build'' packDir) (s\<lparr>fs := f\<rparr>)))"
| "packStep E packDir installDir (NpmRunBuild uniqueName) s =
     (if procOk E ''npm run build'' packDir then
        (case execSync E ''npm pack'' packDir s of
           (Some e, s') \<Rightarrow> (Ended, throwS e s')
         | (None, s') \<Rightarrow> (Ended, s'))
      else
        (Failed (packFail packDir installDir ''Failed to run npm build''
                   (newError ''Command failed: npm run build'')), s))"

section \<open>The task counters\<close>

text \<open>
  The default export (line 211) and \<open>prepApi\<close> (line 145) each keep an array
  \<open>tasks\<close> with the closures \<open>startTask\<close>, \<open>finishTask\<close> and \<open>fail\<close>.
  \<open>tasks.pop()\<close> on an empty array leaves it empty.
\<close>

definition fail :: "string \<Rightarrow> jserr \<Rightarrow> state \<Rightarrow> state" where
  \<comment> \<open>line 213\<close>
  "fail reason err s =
     emit (Callback (Some (newError (reason @ '': '' @ errToString err)))) s"

definition startTask :: "state \<Rightarrow> state" where
  "startTask s = s\<lparr>tasks := tasks s @ [True]\<rparr>"

text \<open>
  The start of the linking step (lines 224 to 227): the list of controllers is
  serialised now and its write is started.
\<close>

definition link :: "env \<Rightarrow> path \<Rightarrow> state \<Rightarrow> state" where
  "link E coreDir s =
     (let s1 = emit (Log ''Linking components'') s
      in s1\<lparr>pending := pending s1 @ [PWriteControllers (jsonStringify E (JArr (newApiControllers s1)))]\<rparr>)"

definition finishTask :: "env \<Rightarrow> path \<Rightarrow> state \<Rightarrow> state" where
  \<comment> \<open>line 220\<close>
  "finishTask E coreDir s =
     (let s' = s\<lparr>tasks := butlast (tasks s)\<rparr>
      in if length (tasks s') = 0 then link E coreDir s' else s')"

text \<open>The callbacks that the default export hands to the three preparations.\<close>

fun apiDone :: "env \<Rightarrow> path \<Rightarrow> path \<Rightarrow> jserr + jsval list \<Rightarrow> state \<Rightarrow> state" where
  \<comment> \<open>line 307\<close>
  "apiDone E coreDir expDir (Inl err) s = fail (''Failed to prep api for '' @ expDir) err s"
| "apiDone E coreDir expDir (Inr contrListAppendix) s =
     finishTask E coreDir
       (emit (Log (''Finished '' @ expDir @ '' API''))
          (s\<lparr>newApiControllers := newApiControllers s @ contrListAppendix\<rparr>))"

fun webDone :: "env \<Rightarrow> path \<Rightarrow> path \<Rightarrow> jserr + string \<times> string \<Rightarrow> state \<Rightarrow> state" where
  \<comment> \<open>line 317\<close>
  "webDone E coreDir expDir (Inl err) s = fail (''Failed to prep web page for '' @ expDir) err s"
| "webDone E coreDir expDir (Inr webListAppendix) s =
     finishTask E coreDir
       (emit (Log (''Finished '' @ expDir @ '' web page''))
          (s\<lparr>newWebPageIncludes := newWebPageIncludes s @ [webListAppendix]\<rparr>))"

fun workerDone :: "env \<Rightarrow> path \<Rightarrow> path \<Rightarrow> jserr + string \<times> jsval \<Rightarrow> state \<Rightarrow> state" where
  \<comment> \<open>line 327\<close>
  "workerDone E coreDir expDir (Inl err) s = fail (''Failed to prep worker for '' @ expDir) err s"
| "workerDone E coreDir expDir (Inr workerAppendix) s =
     finishTask E coreDir
       (emit (Log (''Finished '' @ expDir @ '' worker''))
          (s\<lparr>newWorkerServices := newWorkerServices s @ [workerAppendix]\<rparr>))"

text \<open>The closures of one call of \<open>prepApi\<close>, found by the experiment's directory.\<close>

definition getScope :: "path \<Rightarrow> state \<Rightarrow> bool list \<times> jsval list" where
  "getScope expDir s = (case map_of (scopes s) expDir of Some sc \<Rightarrow> sc | None \<Rightarrow> ([], []))"

definition setScope :: "path \<Rightarrow> bool list \<times> jsval list \<Rightarrow> state \<Rightarrow> state" where
  "setScope expDir sc s = s\<lparr>scopes := AList.update expDir sc (scopes s)\<rparr>"

definition startTaskApi :: "path \<Rightarrow> state \<Rightarrow> state" where
  "startTaskApi expDir s = setScope expDir (fst (getScope expDir s) @ [True], snd (getScope expDir s)) s"

definition failApi :: "env \<Rightarrow> path \<Rightarrow> path \<Rightarrow> string \<Rightarrow> jserr \<Rightarrow> state \<Rightarrow> state" where
  \<comment> \<open>line 147\<close>
  "failApi E coreDir expDir reason err s =
     apiDone E coreDir expDir (Inl (newError (reason @ '': '' @ errToString err))) s"

definition finishTaskApi :: "env \<Rightarrow> path \<Rightarrow> path \<Rightarrow> state \<Rightarrow> state" where
  \<comment> \<open>line 151\<close>
  "finishTaskApi E coreDir expDir s =
     (let s' = setScope expDir (butlast (fst (getScope expDir s)), snd (getScope expDir s)) s
      in if length (fst (getScope expDir s')) = 0
         then apiDone E coreDir expDir (Inr (snd (getScope expDir s'))) s'
         else s')"

section \<open>The three preparations of one experiment\<close>

text \<open>The callback of \<open>packAndInstall\<close>, by the place that wrote it.\<close>

definition apos :: string where
  "apos = [CHR 0x27]"

fun kontCall :: "env \<Rightarrow> path \<Rightarrow> kont \<Rightarrow> jserr + string \<Rightarrow> state \<Rightarrow> state" where
  "kontCall E coreDir (KApi expDir fullContrLoc controller) (Inl err) s =
     failApi E coreDir expDir (''Failed on prepping API controller '' @ fullContrLoc @ '':'') err s"
| "kontCall E coreDir (KApi expDir fullContrLoc controller) (Inr moduleName) s =
     (let mountPath = field controller ''mountPath'';
          s1 = emit (Log (''Loaded API controller for '' @ toStr mountPath @ '' ('' @ moduleName @ '')'')) s;
          s2 = setScope expDir
                 (fst (getScope expDir s1),
                  snd (getScope expDir s1) @ [JObj [(''name'', JStr moduleName), (''mountPath'', mountPath)]])
                 s1
      in finishTaskApi E coreDir expDir s2)"
| "kontCall E coreDir (KWeb expDir expConfig) (Inl err) s =
     webDone E coreDir expDir (Inl (JsStr (''Failed on prepping web page: '' @ errToString err))) s"
| "kontCall E coreDir (KWeb expDir expConfig) (Inr moduleName) s =
     (let s1 = emit (Log (''Loaded web page for '' @ toStr (field expConfig ''shortName'')
                          @ '' ('' @ moduleName @ '')'')) s;
          modListAppendix =
            ''{ fullName: '' @ apos @ toStr (field expConfig ''experimentName'') @ apos
            @ '', shortName: '' @ apos @ toStr (field expConfig ''shortName'') @ apos
            @ '', module: '' @ moduleName
            @ '', logo: '' @ apos @ toStr (field expConfig ''logo'') @ apos
            @ '', tagline: '' @ apos @ toStr (field expConfig ''tagline'') @ apos
            @ '', duration: '' @ apos @ toStr (field expConfig ''duration'') @ apos @ '' }''
      in webDone E coreDir expDir (Inr (moduleName, modListAppendix)) s1)"

text \<open>What the caller of \<open>packAndInstall\<close> sees of a step's result.\<close>

definition deliver :: "env \<Rightarrow> path \<Rightarrow> path \<Rightarrow> path \<Rightarrow> kont \<Rightarrow> packres \<times> state \<Rightarrow> state" where
  "deliver E coreDir packDir installDir k r =
     (case r of
        (Started op, s) \<Rightarrow> s\<lparr>pending := pending s @ [PPack packDir installDir op k]\<rparr>
      | (Failed err, s) \<Rightarrow> kontCall E coreDir k (Inl err) s
      | (Succeeded name, s) \<Rightarrow> kontCall E coreDir k (Inr name) s
      | (Ended, s) \<Rightarrow> s)"

fun prepControllers :: "env \<Rightarrow> path \<Rightarrow> path \<Rightarrow> jsval list \<Rightarrow> state \<Rightarrow> state" where
  "prepControllers E expDir coreDir [] s = s"
| "prepControllers E expDir coreDir (controller # rest) s =
     (case getProp controller ''location'' of
        Inl e \<Rightarrow> throwS e s
      | Inr loc \<Rightarrow>
          (case pathJoinV expDir loc of
             Inl e \<Rightarrow> throwS e s
           | Inr fullContrLoc \<Rightarrow>
               (let s1 = emit (Log (''Started loading API controller for ''
                                    @ toStr (field controller ''mountPath''))) s;
                    s2 = startTaskApi expDir s1;
                    installDir = path_join coreDir ''api/tempPackages'';
                    s3 = deliver E coreDir fullContrLoc installDir (KApi expDir fullContrLoc controller)
                           (packAndInstall E fullContrLoc installDir s2)
                in if uncaught s3 = None then prepControllers E expDir coreDir rest s3 else s3)))"

definition prepApi :: "env \<Rightarrow> path \<Rightarrow> jsval \<Rightarrow> path \<Rightarrow> state \<Rightarrow> state" where
  \<comment> \<open>line 145; \<open>controllerConfigs.forEach\<close> throws unless the value is an array\<close>
  "prepApi E expDir controllerConfigs coreDir s =
     (let s0 = setScope expDir ([], []) s
      in case controllerConfigs of
           JArr cs \<Rightarrow> prepControllers E expDir coreDir cs s0
         | v \<Rightarrow> throwS (typeError ''controllerConfigs.forEach is not a function'') s0)"

definition prepWeb :: "env \<Rightarrow> path \<Rightarrow> jsval \<Rightarrow> path \<Rightarrow> state \<Rightarrow> state" where
  \<comment> \<open>line 174\<close>
  "prepWeb E expDir expConfig coreDir s =
     (case getProp (field expConfig ''webPage'') ''location'' of
        Inl e \<Rightarrow> throwS e s
      | Inr loc \<Rightarrow>
          (case pathJoinV expDir loc of
             Inl e \<Rightarrow> throwS e s
           | Inr webPageLoc \<Rightarrow>
               (let s1 = emit (Log (''Started loading web page for ''
                                    @ toStr (field expConfig ''shortName''))) s;
                    installDir = path_join coreDir ''front-end/tempPackages''
                in deliver E coreDir webPageLoc installDir (KWeb expDir expConfig)
                     (packAndInstall E webPageLoc installDir s1))))"

text \<open>
  Lines 202 and 203: the entry of the service registry that \<open>prepWorker\<close> builds from
  the worker's base service and the worker's name.
\<close>

definition workerServiceContent :: "jsval \<Rightarrow> string \<Rightarrow> (string \<times> jsval) list" where
  "workerServiceContent workerService workerName =
     (let serviceContent = setProp ''image'' (JStr workerName) (ownProps workerService);
          oldLabels = (case map_of serviceContent ''labels'' of Some v \<Rightarrow> v | None \<Rightarrow> JUndefined);
          labels = setProp ''isPushkinWorker'' (JBool True)
                     (ownProps (if truthy oldLabels then oldLabels else JObj []))
      in setProp ''labels'' (JObj labels) serviceContent)"

definition prepWorker :: "env \<Rightarrow> path \<Rightarrow> jsval \<Rightarrow> state \<Rightarrow> state" where
  \<comment> \<open>line 190, up to the start of \<open>docker build\<close>\<close>
  "prepWorker E expDir expConfig s =
     (let workerConfig = field expConfig ''worker'' in
      case getProp workerConfig ''service'' of
        Inl e \<Rightarrow> throwS e s
      | Inr workerService \<Rightarrow>
          (let (u, s1) = drawUuid E s;
               workerName = workerImageName u
           in case pathJoinV expDir (field workerConfig ''location'') of
                Inl e \<Rightarrow> throwS e s1
              | Inr workerLoc \<Rightarrow>
                  (let s2 = emit (Log (''Building image for worker ''
                                       @ toStr (field expConfig ''shortName'')
                                       @ '' ('' @ workerName @ '')'')) s1;
                       cmd = ''docker build '' @ workerLoc @ '' -t '' @ workerName;
                       s3 = emit (Exec cmd []) s2
                   in s3\<lparr>pending := pending s3 @ [PDocker expDir cmd expConfig workerName]\<rparr>)))"

definition dockerDone :: "env \<Rightarrow> path \<Rightarrow> path \<Rightarrow> string \<Rightarrow> jsval \<Rightarrow> string \<Rightarrow> state \<Rightarrow> state" where
  \<comment> \<open>the callback of \<open>exec\<close> at line 196\<close>
  "dockerDone E coreDir expDir cmd expConfig workerName s =
     (if procOk E cmd [] then
        (let s1 = emit (Log (''Built image for worker '' @ toStr (field expConfig ''shortName'')
                             @ '' ('' @ workerName @ '')'')) s;
             workerService = field (field expConfig ''worker'') ''service''
         in workerDone E coreDir expDir
              (Inr (workerName, JObj (workerServiceContent workerService workerName))) s1)
      else
        workerDone E coreDir expDir
          (Inl (newError (''Failed to build worker: ''
                          @ errToString (newError (''Command failed: '' @ cmd))))) s)"

section \<open>The linking step\<close>

text \<open>
  The callback of the write of \<open>controllers.json\<close> (lines 227 to 282) and the one of
  the write of the compose file (line 251). Both name a variable \<open>e\<close> that is not in
  scope when the write failed: evaluating it throws a \<open>ReferenceError\<close>.

  Lines 258 and 270 hand the rebuilds (\<open>npm run build\<close> in \<open>api\<close> and in
  \<open>front-end\<close>, the countdown of \<open>prepping\<close> and the call of \<open>callback()\<close>) to
  \<open>execSync\<close> as a third argument, which \<open>execSync\<close> never calls: the step runs
  the two \<open>npm install *\<close> and ends. A failing install throws where nothing catches.
\<close>

fun includeAll :: "path \<Rightarrow> (string \<times> string) list \<Rightarrow> state \<Rightarrow> jserr option \<times> state" where
  "includeAll file [] s = (None, s)"
| "includeAll file (include # rest) s =
     andThen (includeInModuleList (fst include) (snd include) file s) (includeAll file rest)"

text \<open>
  \<open>compFile.services[workService.serviceName] = workService.serviceContent\<close> (line 246),
  in strict code: a \<open>TypeError\<close> unless \<open>compFile.services\<close> is an object or an
  array; a named property of an array is not part of the document.
\<close>

fun addServices :: "(string \<times> jsval) list \<Rightarrow> jsval \<Rightarrow> jserr + jsval" where
  "addServices [] compFile = Inr compFile"
| "addServices (workService # rest) compFile =
     (case getProp compFile ''services'' of
        Inl e \<Rightarrow> Inl e
      | Inr (JObj services) \<Rightarrow>
          addServices rest
            (withServices compFile (JObj (setProp (fst workService) (snd workService) services)))
      | Inr (JArr xs) \<Rightarrow> addServices rest compFile
      | Inr v \<Rightarrow> Inl (typeError ''Cannot set property of compFile.services''))"

definition loadCompose :: "env \<Rightarrow> path \<Rightarrow> state \<Rightarrow> jserr + jsval" where
  "loadCompose E composeFileLoc s =
     (case readFileSync (fs s) composeFileLoc of
        Inl e \<Rightarrow> Inl e
      | Inr content \<Rightarrow>
          (case yamlLoad E content of
             None \<Rightarrow> Inl (JsErr ''YAMLException'' ''safeLoad'')
           | Some compFile \<Rightarrow> Inr compFile))"

definition rebuild :: "env \<Rightarrow> path \<Rightarrow> state \<Rightarrow> state" where
  \<comment> \<open>lines 256 to 281\<close>
  "rebuild E coreDir s =
     (let s1 = emit (Log ''Building core Pushkin with new experiment components'') s
      in case execSync E ''npm install *'' (path_join coreDir ''api/tempPackages'') s1 of
           (Some e, s2) \<Rightarrow> throwS e s2
         | (None, s2) \<Rightarrow>
             (case execSync E ''npm install *'' (path_join coreDir ''front-end/tempPackages'') s2 of
                (Some e, s3) \<Rightarrow> throwS e s3
              | (None, s3) \<Rightarrow> s3))"

definition controllersWritten :: "env \<Rightarrow> path \<Rightarrow> string \<Rightarrow> state \<Rightarrow> state" where
  "controllersWritten E coreDir data s =
     (case writeFileSync (fs s) (path_join coreDir ''api/src/controllers.json'') data of
        Inl err \<Rightarrow> throwS (JsErr ''ReferenceError'' ''e is not defined'') s
      | Inr f \<Rightarrow>
          (case includeAll (path_join coreDir ''front-end/src/experiments.js'')
                  (newWebPageIncludes s) (s\<lparr>fs := f\<rparr>) of
             (Some e, s1) \<Rightarrow> fail ''Failed to include web pages in front end'' e s1
           | (None, s1) \<Rightarrow>
               (let composeFileLoc = path_join coreDir ''docker-compose.dev.yml'' in
                case loadCompose E composeFileLoc s1 of
                  Inl e \<Rightarrow> fail ''Failed to load main docker compose file'' e s1
                | Inr compFile \<Rightarrow>
                    (case addServices (newWorkerServices s1) compFile of
                       Inl e \<Rightarrow> throwS e s1
                     | Inr compFile' \<Rightarrow>
                         (case yamlDump E compFile' of
                            None \<Rightarrow>
                              fail ''Failed to create new compose file without old workers''
                                (JsErr ''YAMLException'' ''safeDump'') s1
                          | Some newCompData \<Rightarrow>
                              rebuild E coreDir
                                (s1\<lparr>pending := pending s1 @ [PWriteCompose newCompData]\<rparr>))))))"

definition composeWritten :: "path \<Rightarrow> string \<Rightarrow> state \<Rightarrow> state" where
  "composeWritten coreDir data s =
     (case writeFileSync (fs s) (path_join coreDir ''docker-compose.dev.yml'') data of
        Inl err \<Rightarrow> throwS (JsErr ''ReferenceError'' ''e is not defined'') s
      | Inr f \<Rightarrow> s\<lparr>fs := f\<rparr>)"

section \<open>The default export and the event loop\<close>

definition loadConfig :: "env \<Rightarrow> path \<Rightarrow> state \<Rightarrow> jserr + jsval" where
  \<comment> \<open>line 302\<close>
  "loadConfig E expConfigPath s =
     (case readFileSync (fs s) expConfigPath of
        Inl e \<Rightarrow> Inl e
      | Inr content \<Rightarrow>
          (case yamlLoad E content of
             None \<Rightarrow> Inl (JsErr ''YAMLException'' ''safeLoad'')
           | Some expConfig \<Rightarrow> Inr expConfig))"

text \<open>
  The body of the loop over the entries of the experiments directory (lines 296 to
  333). The \<open>return\<close> of lines 297 and 303 leaves this body, not the loop.
\<close>

definition prepOne :: "env \<Rightarrow> path \<Rightarrow> path \<Rightarrow> state \<Rightarrow> state" where
  "prepOne E coreDir expDir s =
     (case lstatSync (fs s) expDir of
        Inl e \<Rightarrow> throwS e s
      | Inr n \<Rightarrow>
          (if \<not> isDirectory n then s
           else
             (let s1 = emit (Log (''Started prep for experiment in '' @ expDir)) s in
              case loadConfig E (path_join expDir ''config.yaml'') s1 of
                Inl e \<Rightarrow> fail (''Failed to load config file for '' @ expDir) e s1
              | Inr expConfig \<Rightarrow>
                  (let s2 = startTask s1 in
                   case getProp expConfig ''apiControllers'' of
                     Inl e \<Rightarrow> throwS e s2
                   | Inr controllerConfigs \<Rightarrow>
                       thenDo (prepApi E expDir controllerConfigs coreDir)
                         (thenDo (\<lambda>t. prepWeb E expDir expConfig coreDir (startTask t))
                            (\<lambda>t. prepWorker E expDir expConfig (startTask t)))
                         s2))))"

fun prepAll :: "env \<Rightarrow> path \<Rightarrow> path \<Rightarrow> string list \<Rightarrow> state \<Rightarrow> state" where
  "prepAll E experimentsDir coreDir [] s = s"
| "prepAll E experimentsDir coreDir (expDir # rest) s =
     thenDo (prepOne E coreDir (path_join experimentsDir expDir))
       (prepAll E experimentsDir coreDir rest) s"

text \<open>
  The default export (line 211), up to its return. An exception that leaves it is
  kept in \<open>uncaught\<close>.
\<close>

definition prep :: "env \<Rightarrow> path \<Rightarrow> path \<Rightarrow> state \<Rightarrow> state" where
  "prep E experimentsDir coreDir s =
     (case cleanUpSync E coreDir (emit (Log ''Cleaning up old experiments'') s) of
        (Some e, s1) \<Rightarrow> fail ''Failed to clean up old experiments'' e s1
      | (None, s1) \<Rightarrow>
          (case readdirSync (fs s1) experimentsDir of
             Inl e \<Rightarrow> throwS e s1
           | Inr expDirs \<Rightarrow> prepAll E experimentsDir coreDir expDirs s1))"

text \<open>
  The event loop: an operation in flight completes and its callback runs to its end.
  Which one completes next is the scheduler's choice, given as an index into
  \<open>pending\<close>; nothing runs after an uncaught exception.
\<close>

fun handle :: "env \<Rightarrow> path \<Rightarrow> pend \<Rightarrow> state \<Rightarrow> state" where
  "handle E coreDir (PPack packDir installDir op k) s =
     deliver E coreDir packDir installDir k (packStep E packDir installDir op s)"
| "handle E coreDir (PDocker expDir cmd expConfig workerName) s =
     dockerDone E coreDir expDir cmd expConfig workerName s"
| "handle E coreDir (PWriteControllers data) s = controllersWritten E coreDir data s"
| "handle E coreDir (PWriteCompose data) s = composeWritten coreDir data s"

definition complete :: "env \<Rightarrow> path \<Rightarrow> nat \<Rightarrow> state \<Rightarrow> state" where
  "complete E coreDir i s =
     (if uncaught s \<noteq> None \<or> length (pending s) \<le> i then s
      else handle E coreDir (pending s ! i)
             (s\<lparr>pending := take i (pending s) @ drop (Suc i) (pending s)\<rparr>))"

fun run :: "env \<Rightarrow> path \<Rightarrow> nat list \<Rightarrow> state \<Rightarrow> state" where
  "run E coreDir [] s = s"
| "run E coreDir (i # rest) s = run E coreDir rest (complete E coreDir i s)"

definition initial :: "filesys \<Rightarrow> state" where
  "initial f =
     \<lparr>fs = f, trace = [], drawn = 0, uncaught = None, pending = [], tasks = [],
      newApiControllers = [], newWebPageIncludes = [], newWorkerServices = [], scopes = []\<rparr>"

section \<open>Notions used to state the properties\<close>





text \<open>A sample environment and sample data, for the concrete instances below.\<close>

definition demoUuid :: "nat \<Rightarrow> string" where
  "demoUuid i = ''0000000'' @ show_nat i @ ''-0000-4000-8000-000000000000''"

definition controllers0 :: string where
  "controllers0 = ''[{name: pushkinComponentaaa, mountPath: /quiz}]''"

definition experiments0 :: string where
  "experiments0 =
     ''import pushkinComponentbbb from '' @ apos @ ''pushkinComponentbbb'' @ apos @ '';'' @ nl
     @ ''export default ['' @ nl
     @ tab @ ''{ fullName: Quiz, shortName: quiz, module: pushkinComponentbbb },'' @ nl
     @ ''];''"

definition managedService :: "string \<Rightarrow> jsval" where
  "managedService img =
     JObj [(''image'', JStr img), (''labels'', JObj [(''isPushkinWorker'', JBool True)])]"

definition demoServices :: "(string \<times> jsval) list" where
  "demoServices =
     [(''pushkinworkera'', managedService ''pushkinworkera''),
      (''db'', JObj [(''image'', JStr ''postgres''), (''labels'', JObj [(''tier'', JStr ''data'')])]),
      (''pushkinworkerb'', managedService ''pushkinworkerb''),
      (''pushkinworkerc'', managedService ''pushkinworkerc'')]"

definition demoProps :: "(string \<times> jsval) list" where
  "demoProps = [(''version'', JStr ''3.1''), (''services'', JObj demoServices)]"

definition composeDoc0 :: jsval where
  "composeDoc0 = JObj demoProps"

definition composeDoc1 :: jsval where
  "composeDoc1 =
     JObj [(''version'', JStr ''3.1''),
           (''services'',
            JObj [(''db'', JObj [(''image'', JStr ''postgres''),
                                 (''labels'', JObj [(''tier'', JStr ''data'')])])])]"

definition packageJson0 :: string where
  "packageJson0 = ''{name: quiz-api, version: 1.0.0}''"

definition quizConfig :: jsval where
  "quizConfig =
     JObj [(''experimentName'', JStr ''Quiz''),
           (''shortName'', JStr ''quiz''),
           (''logo'', JStr ''logo.png''),
           (''tagline'', JStr ''A quiz''),
           (''duration'', JStr ''5''),
           (''apiControllers'',
            JArr [JObj [(''location'', JStr ''api''), (''mountPath'', JStr ''/quiz'')]]),
           (''webPage'', JObj [(''location'', JStr ''web'')]),
           (''worker'',
            JObj [(''location'', JStr ''worker''),
                  (''service'', JObj [(''restart'', JStr ''always'')])])]"

definition demoEnv :: env where
  "demoEnv =
     \<lparr>jsonParse = (\<lambda>t. if t = ''[]'' then Some (JArr [])
                       else if t = controllers0
                       then Some (JArr [JObj [(''name'', JStr ''pushkinComponentaaa''),
                                              (''mountPath'', JStr ''/quiz'')]])
                       else if t = packageJson0
                       then Some (JObj [(''name'', JStr ''quiz-api''), (''version'', JStr ''1.0.0'')])
                       else None),
      jsonStringify = (\<lambda>v. if v = JArr [] then ''[]''
                           else ''{name: '' @ toStr (field v ''name'') @ '', version: 1.0.0}''),
      yamlLoad = (\<lambda>t. if t = ''compose with three workers'' then Some composeDoc0
                      else if t = ''compose without workers'' then Some composeDoc1
                      else if t = ''experiment quiz'' then Some quizConfig
                      else None),
      yamlDump = (\<lambda>v. if v = composeDoc0 then Some ''compose with three workers''
                      else if v = composeDoc1 then Some ''compose without workers''
                      else None),
      procOk = (\<lambda>cmd cwd. True),
      uuid = demoUuid\<rparr>"

definition demoFs :: filesys where
  "demoFs =
     [(''/core'', Dir),
      (''/core/api'', Dir),
      (''/core/api/src'', Dir),
      (''/core/api/src/controllers.json'', File controllers0),
      (''/core/api/tempPackages'', Dir),
      (''/core/api/tempPackages/pushkinComponentaaa-1.0.0.tgz'', File ''tarball''),
      (''/core/api/tempPackages/cache'', Dir),
      (''/core/front-end'', Dir),
      (''/core/front-end/src'', Dir),
      (''/core/front-end/src/experiments.js'', File experiments0),
      (''/core/front-end/tempPackages'', Dir),
      (''/core/front-end/tempPackages/pushkinComponentbbb-1.0.0.tgz'', File ''tarball''),
      (''/core/docker-compose.dev.yml'', File ''compose with three workers''),
      (''/experiments'', Dir)]"


definition marked :: "jsval \<Rightarrow> bool" where
  "marked serviceContent = (isManaged serviceContent = Inr True)"

definition lookup :: "(string \<times> jsval) list \<Rightarrow> string \<Rightarrow> jsval" where
  "lookup kvs k = (case map_of kvs k of Some v \<Rightarrow> v | None \<Rightarrow> JUndefined)"

text \<open>
  Notions about a staging directory: a path holds a regular file; a directory can be
  listed; a directory has no regular file among its entries. \<open>sweep\<close> is what the
  loops of lines 118 and 123 leave of the file system.
\<close>

definition fileAt :: "filesys \<Rightarrow> path \<Rightarrow> bool" where
  "fileAt f p = (case map_of f p of Some (File c) \<Rightarrow> True | _ \<Rightarrow> False)"

definition listable :: "filesys \<Rightarrow> path \<Rightarrow> bool" where
  "listable f d = (map_of f d = Some Dir)"


definition sweep :: "path \<Rightarrow> filesys \<Rightarrow> filesys" where
  "sweep d f = filter (\<lambda>kv. \<not> (is_child d (fst kv) \<and> fileAt f (fst kv))) f"

definition tempSweep :: "path \<Rightarrow> filesys \<Rightarrow> filesys" where
  "tempSweep coreDir f =
     (if listable f (path_join coreDir ''api/tempPackages'') then
        (let f1 = sweep (path_join coreDir ''api/tempPackages'') f
         in if listable f1 (path_join coreDir ''front-end/tempPackages'')
            then sweep (path_join coreDir ''front-end/tempPackages'') f1 else f1)
      else f)"

text \<open>
  A call on a task counter: \<open>finishTask()\<close>, or \<open>fail(reason, err)\<close>. \<open>topOps\<close>
  runs a sequence of calls on the counter of the default export, \<open>apiOps\<close> on the
  counter of the \<open>prepApi\<close> call for one experiment.
\<close>

datatype call = Decrement | Failure string jserr

fun topOp :: "env \<Rightarrow> path \<Rightarrow> call \<Rightarrow> state \<Rightarrow> state" where
  "topOp E coreDir Decrement s = finishTask E coreDir s"
| "topOp E coreDir (Failure reason err) s = fail reason err s"

fun topOps :: "env \<Rightarrow> path \<Rightarrow> call list \<Rightarrow> state \<Rightarrow> state" where
  "topOps E coreDir [] s = s"
| "topOps E coreDir (c # cs) s = topOps E coreDir cs (topOp E coreDir c s)"

fun apiOp :: "env \<Rightarrow> path \<Rightarrow> path \<Rightarrow> call \<Rightarrow> state \<Rightarrow> state" where
  "apiOp E coreDir expDir Decrement s = finishTaskApi E coreDir expDir s"
| "apiOp E coreDir expDir (Failure reason err) s = failApi E coreDir expDir reason err s"

fun apiOps :: "env \<Rightarrow> path \<Rightarrow> path \<Rightarrow> call list \<Rightarrow> state \<Rightarrow> state" where
  "apiOps E coreDir expDir [] s = s"
| "apiOps E coreDir expDir (c # cs) s = apiOps E coreDir expDir cs (apiOp E coreDir expDir c s)"

text \<open>
  What is counted. The success continuation of the default export's counter is the
  linking step, which starts by printing \<open>Linking components\<close>; the one of
  \<open>prepApi\<close>'s counter is its callback called without an error, which prints
  \<open>Finished ... API\<close> for the experiment. The failure continuation of either is, in
  the end, the callback of the default export called with an error.
\<close>

fun isDecrement :: "call \<Rightarrow> bool" where
  "isDecrement Decrement = True"
| "isDecrement (Failure reason err) = False"

fun isErrorCallback :: "event \<Rightarrow> bool" where
  "isErrorCallback (Callback (Some e)) = True"
| "isErrorCallback ev = False"

fun isCallback :: "event \<Rightarrow> bool" where
  "isCallback (Callback r) = True"
| "isCallback ev = False"

definition decrements :: "call list \<Rightarrow> nat" where
  "decrements cs = length (filter isDecrement cs)"

definition failCalls :: "call list \<Rightarrow> nat" where
  "failCalls cs = length (filter (\<lambda>c. \<not> isDecrement c) cs)"

definition failures :: "state \<Rightarrow> nat" where
  "failures s = length (filter isErrorCallback (trace s))"

definition linkings :: "state \<Rightarrow> nat" where
  "linkings s = length (filter (\<lambda>ev. ev = Log ''Linking components'') (trace s))"

definition apiFinished :: "path \<Rightarrow> state \<Rightarrow> nat" where
  "apiFinished expDir s =
     length (filter (\<lambda>ev. ev = Log (''Finished '' @ expDir @ '' API'')) (trace s))"

text \<open>
  Experiments directories: one with the experiment \<open>quiz\<close> (a controller, a web
  page, a worker), and one that also holds two directories whose \<open>config.yaml\<close>
  cannot be loaded (\<open>broken\<close>: not YAML; \<open>empty\<close>: no file), listed first.
\<close>

definition quizFiles :: filesys where
  "quizFiles =
     [(''/experiments/quiz'', Dir),
      (''/experiments/quiz/config.yaml'', File ''experiment quiz''),
      (''/experiments/quiz/api'', Dir),
      (''/experiments/quiz/api/package.json'', File packageJson0),
      (''/experiments/quiz/web'', Dir),
      (''/experiments/quiz/web/package.json'', File packageJson0),
      (''/experiments/quiz/worker'', Dir)]"

definition quizFs :: filesys where
  "quizFs = demoFs @ quizFiles"

definition brokenFs :: filesys where
  "brokenFs =
     demoFs
     @ [(''/experiments/broken'', Dir),
        (''/experiments/broken/config.yaml'', File ''shortName: [quiz''),
        (''/experiments/empty'', Dir)]
     @ quizFiles"

fun isProcess :: "event \<Rightarrow> bool" where
  "isProcess (Exec cmd cwd) = True"
| "isProcess (ExecSync cmd cwd) = True"
| "isProcess ev = False"

text \<open>
  \<open>packAndInstall\<close> followed to its end with nothing else in between: its
  synchronous part and the completions of the operations it starts, of which there
  are at most three in a row.
\<close>

definition packNext :: "env \<Rightarrow> path \<Rightarrow> path \<Rightarrow> packres \<times> state \<Rightarrow> packres \<times> state" where
  "packNext E packDir installDir r =
     (case r of
        (Started op, s) \<Rightarrow> packStep E packDir installDir op s
      | other \<Rightarrow> other)"

definition packToEnd :: "env \<Rightarrow> path \<Rightarrow> path \<Rightarrow> state \<Rightarrow> packres \<times> state" where
  "packToEnd E packDir installDir s =
     packNext E packDir installDir
       (packNext E packDir installDir
          (packNext E packDir installDir (packAndInstall E packDir installDir s)))"

text \<open>How far a chain of \<open>packAndInstall\<close> is from its end, by the result of a step.\<close>

fun rank :: "packres \<Rightarrow> nat" where
  "rank (Started ReadPackageJson) = 3"
| "rank (Started (WritePackageJson uniqueName content)) = 2"
| "rank (Started (NpmRunBuild uniqueName)) = 1"
| "rank (Failed err) = 0"
| "rank Ended = 0"
| "rank (Succeeded moduleName) = 4"

text \<open>
  Three sample runs: the linking step on the core directory as \<open>cleanUpSync\<close> leaves
  it, started by the last \<open>finishTask\<close> and followed through the two writes it
  starts; the default export on the experiments directory with the two unloadable
  descriptors; and \<open>packAndInstall\<close> on the controller of \<open>quiz\<close>.
\<close>

definition cleanFs :: filesys where
  "cleanFs = fs (snd (cleanUpSync demoEnv ''/core'' (initial demoFs)))"

definition linkedRun :: state where
  "linkedRun = run demoEnv ''/core'' [0, 0] (finishTask demoEnv ''/core'' (startTask (initial cleanFs)))"

definition brokenRun :: state where
  "brokenRun = prep demoEnv ''/experiments'' ''/core'' (initial brokenFs)"

definition emptyRun :: state where
  "emptyRun = prep demoEnv ''/experiments'' ''/core'' (initial demoFs)"

definition quizPacked :: "packres \<times> state" where
  "quizPacked = packToEnd demoEnv ''/experiments/quiz/api'' ''/core/api/tempPackages'' (initial quizFs)"

text \<open>The callback of the default export has been called without an error.\<close>

definition completed :: "state \<Rightarrow> bool" where
  "completed s = (Callback None \<in> set (trace s))"

section \<open>Properties\<close>

subsection \<open>Strings\<close>








subsection \<open>Unique names\<close>





subsection \<open>The worker's entry in the service registry\<close>







subsection \<open>cleanUpSync\<close>


lemma delete_as_filter: "AList.delete k al = filter (\<lambda>kv. fst kv \<noteq> k) al"
  by (induction al) auto

lemma removeManaged_Inr:
  "distinct ks \<Longrightarrow> removeManaged ks svc = Inr r \<Longrightarrow>
     r = filter (\<lambda>kv. \<not> (fst kv \<in> set ks \<and> marked (lookup svc (fst kv)))) svc"
proof (induction ks arbitrary: svc)
  case Nil
  then show ?case by simp
next
  case (Cons k rest)
  from Cons.prems(2) obtain m where m: "isManaged (lookup svc k) = Inr m"
    and r: "removeManaged rest (if m then AList.delete k svc else svc) = Inr r"
    by (auto simp: lookup_def split: sum.splits)
  from Cons.prems(1) have dr: "distinct rest" and kr: "k \<notin> set rest"
    by simp_all
  show ?case
  proof (cases m)
    case True
    let ?svc' = "AList.delete k svc"
    have same: "lookup (filter (\<lambda>kv. fst kv \<noteq> k) svc) j = lookup svc j" if "j \<in> set rest" for j
    proof -
      from that kr have "j \<noteq> k" by auto
      then show ?thesis
        by (simp add: lookup_def delete_conv' delete_as_filter [symmetric])
    qed
    have "r = filter (\<lambda>kv. \<not> (fst kv \<in> set rest \<and> marked (lookup ?svc' (fst kv)))) ?svc'"
      using Cons.IH [OF dr] r True by simp
    also have "\<dots> = filter (\<lambda>kv. \<not> (fst kv \<in> set (k # rest) \<and> marked (lookup svc (fst kv)))) svc"
      unfolding delete_as_filter filter_filter
      by (rule filter_cong) (use m True kr same in \<open>auto simp: marked_def\<close>)
    finally show ?thesis .
  next
    case False
    have "r = filter (\<lambda>kv. \<not> (fst kv \<in> set rest \<and> marked (lookup svc (fst kv)))) svc"
      using Cons.IH [OF dr] r False by simp
    also have "\<dots> = filter (\<lambda>kv. \<not> (fst kv \<in> set (k # rest) \<and> marked (lookup svc (fst kv)))) svc"
      by (rule filter_cong) (use m False in \<open>auto simp: marked_def\<close>)
    finally show ?thesis .
  qed
qed

lemma lookup_distinct: "distinct (map fst kvs) \<Longrightarrow> kv \<in> set kvs \<Longrightarrow> lookup kvs (fst kv) = snd kv"
  by (cases kv) (simp add: lookup_def)

lemma removeManaged_keys:
  assumes "distinct (map fst svc)" "removeManaged (remdups (map fst svc)) svc = Inr r"
  shows "r = filter (\<lambda>kv. \<not> marked (snd kv)) svc"
proof -
  have "r = filter (\<lambda>kv. \<not> (fst kv \<in> set (remdups (map fst svc)) \<and> marked (lookup svc (fst kv)))) svc"
    using removeManaged_Inr [OF _ assms(2)] by simp
  also have "\<dots> = filter (\<lambda>kv. \<not> marked (snd kv)) svc"
    by (rule filter_cong) (use assms(1) in \<open>auto simp: lookup_distinct\<close>)
  finally show ?thesis .
qed

lemma cleanWorkers_object:
  assumes "map_of props ''services'' = Some (JObj svc)" "distinct (map fst svc)"
    and "cleanWorkers (JObj props) = Inr d"
  shows "d = JObj (AList.update ''services'' (JObj (filter (\<lambda>kv. \<not> marked (snd kv)) svc)) props)"
  using assms
  by (auto simp: cleanWorkers_def withServices_def split: sum.splits dest: removeManaged_keys)



lemma map_of_filter_key:
  "map_of (filter (\<lambda>kv. P (fst kv)) f) p = (if P p then map_of f p else None)"
  by (induction f) auto

lemma path_join_inj: "path_join d a = path_join d b \<Longrightarrow> a = b"
  by (simp add: path_join_def)

lemma is_child_path_join: "is_child d p \<Longrightarrow> path_join d (drop (length d + 1) p) = p"
proof -
  assume c: "is_child d p"
  then have "take (length d + 1) p = d @ ''/''"
    by (simp add: is_child_def)
  then have "p = (d @ ''/'') @ drop (length d + 1) p"
    by (metis append_take_drop_id)
  then show ?thesis
    by (simp add: path_join_def)
qed

lemma readdir_names:
  assumes "readdirSync f d = Inr names"
  shows "distinct names"
    and "\<And>p. p \<in> set (map fst f) \<Longrightarrow> (p \<in> path_join d ` set names) = is_child d p"
    and "\<And>name. name \<in> set names \<Longrightarrow> map_of f (path_join d name) \<noteq> None"
proof -
  from assms have names: "names = remdups (map (drop (length d + 1)) (filter (is_child d) (map fst f)))"
    by (auto simp: readdirSync_def split: option.splits node.splits)
  show "distinct names" by (simp add: names)
  have mem: "name \<in> set names \<Longrightarrow> path_join d name \<in> set (map fst f) \<and> is_child d (path_join d name)" for name
    unfolding names using is_child_path_join by auto
  show "(p \<in> path_join d ` set names) = is_child d p" if "p \<in> set (map fst f)" for p
  proof
    assume "p \<in> path_join d ` set names"
    then show "is_child d p" using mem by auto
  next
    assume c: "is_child d p"
    then have "drop (length d + 1) p \<in> set names"
      using that by (auto simp: names)
    then show "p \<in> path_join d ` set names"
      using is_child_path_join [OF c] by (metis imageI)
  qed
  show "map_of f (path_join d name) \<noteq> None" if "name \<in> set names" for name
    using mem [OF that] by (metis map_of_eq_None_iff list.set_map)
qed

lemma unlinkFiles_result:
  "distinct names \<Longrightarrow> \<forall>name \<in> set names. map_of (fs s) (path_join dir name) \<noteq> None \<Longrightarrow>
   unlinkFiles dir names s =
     (None, s\<lparr>fs := filter (\<lambda>kv. \<not> (fst kv \<in> path_join dir ` set names \<and> fileAt (fs s) (fst kv))) (fs s)\<rparr>)"
proof (induction names arbitrary: s)
  case Nil
  then show ?case by simp
next
  case (Cons name rest)
  let ?p = "path_join dir name"
  from Cons.prems obtain n where n: "map_of (fs s) ?p = Some n" by auto
  from Cons.prems have dr: "distinct rest" and nr: "name \<notin> set rest" by simp_all
  have pr: "?p \<notin> path_join dir ` set rest"
    using nr path_join_inj by auto
  show ?case
  proof (cases n)
    case (File c)
    let ?f' = "filter (\<lambda>kv. fst kv \<noteq> ?p) (fs s)"
    have same: "map_of ?f' j = map_of (fs s) j" if "j \<in> path_join dir ` set rest" for j
    proof -
      from that pr have "j \<noteq> ?p" by metis
      then show ?thesis
        using map_of_filter_key [of "\<lambda>k. k \<noteq> ?p" "fs s" j] by simp
    qed
    have pre: "\<forall>x \<in> set rest. map_of (fs (s\<lparr>fs := ?f'\<rparr>)) (path_join dir x) \<noteq> None"
      using Cons.prems(2) same by auto
    have "unlinkFiles dir (name # rest) s = unlinkFiles dir rest (s\<lparr>fs := ?f'\<rparr>)"
      using n File by (simp add: lstatSync_def unlinkSync_def delete_as_filter)
    also have "\<dots> = (None, s\<lparr>fs := filter (\<lambda>kv. \<not> (fst kv \<in> path_join dir ` set rest \<and> fileAt ?f' (fst kv))) ?f'\<rparr>)"
      using Cons.IH [OF dr pre] by simp
    also have "filter (\<lambda>kv. \<not> (fst kv \<in> path_join dir ` set rest \<and> fileAt ?f' (fst kv))) ?f'
        = filter (\<lambda>kv. \<not> (fst kv \<in> path_join dir ` set (name # rest) \<and> fileAt (fs s) (fst kv))) (fs s)"
      unfolding filter_filter
      by (rule filter_cong) (use n File same in \<open>auto simp: fileAt_def\<close>)
    finally show ?thesis .
  next
    case Dir
    have "unlinkFiles dir (name # rest) s = unlinkFiles dir rest s"
      using n Dir by (simp add: lstatSync_def)
    also have "\<dots> = (None, s\<lparr>fs := filter (\<lambda>kv. \<not> (fst kv \<in> path_join dir ` set rest \<and> fileAt (fs s) (fst kv))) (fs s)\<rparr>)"
      using Cons.IH [OF dr] Cons.prems(2) by simp
    also have "filter (\<lambda>kv. \<not> (fst kv \<in> path_join dir ` set rest \<and> fileAt (fs s) (fst kv))) (fs s)
        = filter (\<lambda>kv. \<not> (fst kv \<in> path_join dir ` set (name # rest) \<and> fileAt (fs s) (fst kv))) (fs s)"
      by (rule filter_cong) (use n Dir in \<open>auto simp: fileAt_def\<close>)
    finally show ?thesis .
  qed
qed

lemma cleanDir_listable:
  assumes "listable (fs s) d"
  shows "cleanDir d s = (None, s\<lparr>fs := sweep d (fs s)\<rparr>)"
proof -
  from assms obtain names where names: "readdirSync (fs s) d = Inr names"
    by (auto simp: listable_def readdirSync_def)
  note rn = readdir_names [OF names]
  have "cleanDir d s = unlinkFiles d names s"
    by (simp add: cleanDir_def names)
  also have "\<dots> = (None, s\<lparr>fs := filter (\<lambda>kv. \<not> (fst kv \<in> path_join d ` set names \<and> fileAt (fs s) (fst kv))) (fs s)\<rparr>)"
    by (rule unlinkFiles_result) (use rn in auto)
  also have "filter (\<lambda>kv. \<not> (fst kv \<in> path_join d ` set names \<and> fileAt (fs s) (fst kv))) (fs s)
      = sweep d (fs s)"
    unfolding sweep_def
    by (rule filter_cong) (use rn(2) in auto)
  finally show ?thesis .
qed

lemma cleanDir_unlistable:
  assumes "\<not> listable (fs s) d"
  shows "\<exists>e. cleanDir d s = (Some e, s)"
  using assms
  by (auto simp: listable_def cleanDir_def readdirSync_def split: option.splits node.splits)


lemma map_of_sweep:
  "map_of (sweep d f) p = (if is_child d p \<and> fileAt f p then None else map_of f p)"
  using map_of_filter_key [of "\<lambda>k. \<not> (is_child d k \<and> fileAt f k)" f p]
  by (simp add: sweep_def)







lemma fs_removeTempPackages: "fs (removeTempPackages coreDir s) = tempSweep coreDir (fs s)"
proof -
  let ?api = "path_join coreDir ''api/tempPackages''"
  let ?front = "path_join coreDir ''front-end/tempPackages''"
  let ?s0 = "emit (Log ''Cleaning temporary files'') s"
  have f0: "fs ?s0 = fs s" by (simp add: emit_def)
  show ?thesis
  proof (cases "listable (fs s) ?api")
    case False
    then obtain e where "cleanDir ?api ?s0 = (Some e, ?s0)"
      using cleanDir_unlistable [of ?s0 ?api] f0 by auto
    then show ?thesis
      using False by (simp add: removeTempPackages_def andThen_def tempSweep_def emit_def)
  next
    case True
    let ?s1 = "?s0\<lparr>fs := sweep ?api (fs s)\<rparr>"
    have c1: "cleanDir ?api ?s0 = (None, ?s1)"
      using cleanDir_listable [of ?s0 ?api] True f0 by simp
    show ?thesis
    proof (cases "listable (sweep ?api (fs s)) ?front")
      case False
      then obtain e where "cleanDir ?front ?s1 = (Some e, ?s1)"
        using cleanDir_unlistable [of ?s1 ?front] by auto
      then show ?thesis
        using True False c1
        by (simp add: removeTempPackages_def andThen_def tempSweep_def emit_def)
    next
      case t2: True
      have "cleanDir ?front ?s1 = (None, ?s1\<lparr>fs := sweep ?front (sweep ?api (fs s))\<rparr>)"
        using cleanDir_listable [of ?s1 ?front] t2 by simp
      then show ?thesis
        using True t2 c1
        by (simp add: removeTempPackages_def andThen_def tempSweep_def)
    qed
  qed
qed

lemma not_child_compose:
  "\<not> is_child (path_join coreDir ''api/tempPackages'') (path_join coreDir ''docker-compose.dev.yml'')"
  "\<not> is_child (path_join coreDir ''front-end/tempPackages'') (path_join coreDir ''docker-compose.dev.yml'')"
  "\<not> is_child (path_join coreDir ''api/tempPackages'') (path_join coreDir ''api/src/controllers.json'')"
  "\<not> is_child (path_join coreDir ''front-end/tempPackages'') (path_join coreDir ''api/src/controllers.json'')"
  "\<not> is_child (path_join coreDir ''api/tempPackages'') (path_join coreDir ''front-end/src/experiments.js'')"
  "\<not> is_child (path_join coreDir ''front-end/tempPackages'') (path_join coreDir ''front-end/src/experiments.js'')"
  by (simp_all add: is_child_def path_join_def)


lemma fs_emit [simp]: "fs (emit e s) = fs s"
  by (simp add: emit_def)

lemma fs_uninstall [simp]: "fs (uninstall E cwd what m s) = fs s"
  by (simp add: uninstall_def execSync_def split: prod.splits option.splits)

lemma uninstallControllers_fs: "uninstallControllers E cwd cs s = (r, s') \<Longrightarrow> fs s' = fs s"
  by (induction cs arbitrary: s) (auto split: sum.splits)

lemma fs_uninstallPages [simp]: "fs (uninstallPages E cwd ps s) = fs s"
  by (induction ps arbitrary: s) auto

lemma writeFileSyncS_ok:
  "writeFileSyncS p c s = (None, s') \<Longrightarrow> s' = s\<lparr>fs := AList.update p (File c) (fs s)\<rparr>"
  by (auto simp: writeFileSyncS_def writeFileSync_def split: option.splits node.splits)

lemma resetControllers_ok:
  assumes "resetControllers E coreDir s = (None, s1)"
  shows "fs s1 = AList.update (path_join coreDir ''api/src/controllers.json'')
                   (File (jsonStringify E (JArr []))) (fs s)"
proof -
  from assms obtain cs s0 where u: "uninstallControllers E (path_join coreDir ''api'') cs s = (None, s0)"
    and w: "writeFileSyncS (path_join coreDir ''api/src/controllers.json'') (jsonStringify E (JArr [])) s0 = (None, s1)"
    by (auto simp: resetControllers_def Let_def andThen_def
        split: sum.splits option.splits jsval.splits prod.splits)
  from uninstallControllers_fs [OF u] writeFileSyncS_ok [OF w] show ?thesis by simp
qed

lemma resetWebPages_ok:
  assumes "resetWebPages E coreDir s = (None, s2)"
  shows "fs s2 = AList.update (path_join coreDir ''front-end/src/experiments.js'')
                   (File emptyModuleList) (fs s)"
  using assms
  by (auto simp: resetWebPages_def Let_def split: sum.splits dest!: writeFileSyncS_ok)

lemma removeWorkers_ok:
  assumes "removeWorkers E coreDir s = (None, s')"
  shows "\<exists>d d' t. loadCompose E (path_join coreDir ''docker-compose.dev.yml'') s = Inr d
           \<and> cleanWorkers d = Inr d' \<and> yamlDump E d' = Some t
           \<and> fs s' = AList.update (path_join coreDir ''docker-compose.dev.yml'') (File t) (fs s)"
  using assms
  by (auto simp: removeWorkers_def loadCompose_def Let_def
      split: sum.splits option.splits dest!: writeFileSyncS_ok)

lemma cleanUpSync_ok:
  assumes "cleanUpSync E coreDir s = (None, s')"
  shows "\<exists>s1 s2. resetControllers E coreDir s = (None, s1)
           \<and> resetWebPages E coreDir s1 = (None, s2)
           \<and> removeWorkers E coreDir (removeTempPackages coreDir s2) = (None, s')"
  using assms
  by (auto simp: cleanUpSync_def andThen_def split: prod.splits option.splits)

lemma map_of_tempSweep_other:
  assumes "\<not> is_child (path_join coreDir ''api/tempPackages'') p"
    and "\<not> is_child (path_join coreDir ''front-end/tempPackages'') p"
  shows "map_of (tempSweep coreDir f) p = map_of f p"
  using assms by (simp add: tempSweep_def Let_def map_of_sweep)

lemma loadCompose_cong:
  "map_of (fs s) p = map_of (fs s') p \<Longrightarrow> loadCompose E p s = loadCompose E p s'"
  by (simp add: loadCompose_def readFileSync_def)

lemma path_join_neq:
  "path_join coreDir ''docker-compose.dev.yml'' \<noteq> path_join coreDir ''api/src/controllers.json''"
  "path_join coreDir ''docker-compose.dev.yml'' \<noteq> path_join coreDir ''front-end/src/experiments.js''"
  "path_join coreDir ''api/src/controllers.json'' \<noteq> path_join coreDir ''front-end/src/experiments.js''"
  by (simp_all add: path_join_def)

lemma compose_before_removeWorkers:
  assumes "resetControllers E coreDir s = (None, s1)" "resetWebPages E coreDir s1 = (None, s2)"
  shows "map_of (fs (removeTempPackages coreDir s2)) (path_join coreDir ''docker-compose.dev.yml'')
       = map_of (fs s) (path_join coreDir ''docker-compose.dev.yml'')"
  using resetControllers_ok [OF assms(1)] resetWebPages_ok [OF assms(2)]
  by (simp add: fs_removeTempPackages map_of_tempSweep_other not_child_compose update_conv'
      path_join_neq)

text \<open>
  C7. When \<open>cleanUpSync\<close> completes on a registry document that is a mapping whose
  \<open>services\<close> is a mapping (with each service name once), the file it leaves is
  the dump of the same document with \<open>services\<close> filtered in place: exactly the
  entries bearing the marker (a truthy \<open>labels.isPushkinWorker\<close>) are gone, every
  other entry and every other top-level key is as it was.
\<close>

theorem C7_managed_services_removed:
  assumes "cleanUpSync E coreDir s = (None, s')"
    and "loadCompose E (path_join coreDir ''docker-compose.dev.yml'') s = Inr (JObj props)"
    and "map_of props ''services'' = Some (JObj services)"
    and "distinct (map fst services)"
  shows "\<exists>newCompData.
           readFileSync (fs s') (path_join coreDir ''docker-compose.dev.yml'') = Inr newCompData
           \<and> yamlDump E (JObj (AList.update ''services''
                 (JObj (filter (\<lambda>kv. \<not> marked (snd kv)) services)) props)) = Some newCompData"
proof -
  let ?compose = "path_join coreDir ''docker-compose.dev.yml''"
  from cleanUpSync_ok [OF assms(1)] obtain s1 s2 where
    r1: "resetControllers E coreDir s = (None, s1)" and
    r2: "resetWebPages E coreDir s1 = (None, s2)" and
    r4: "removeWorkers E coreDir (removeTempPackages coreDir s2) = (None, s')"
    by blast
  let ?s3 = "removeTempPackages coreDir s2"
  from removeWorkers_ok [OF r4] obtain d d' t where
    ld: "loadCompose E ?compose ?s3 = Inr d" and cw: "cleanWorkers d = Inr d'"
    and dump: "yamlDump E d' = Some t" and f: "fs s' = AList.update ?compose (File t) (fs ?s3)"
    by blast
  have "loadCompose E ?compose ?s3 = loadCompose E ?compose s"
    by (rule loadCompose_cong) (rule compose_before_removeWorkers [OF r1 r2])
  with ld assms(2) have d: "d = JObj props" by simp
  have d': "d' = JObj (AList.update ''services'' (JObj (filter (\<lambda>kv. \<not> marked (snd kv)) services)) props)"
    using cleanWorkers_object [OF assms(3,4)] cw d by simp
  have "readFileSync (fs s') ?compose = Inr t"
    by (simp add: f readFileSync_def update_conv')
  with dump d' show ?thesis by blast
qed


theorem C7_managed_services_removed_witness:
  "readFileSync (fs (snd (cleanUpSync demoEnv ''/core'' (initial demoFs))))
     ''/core/docker-compose.dev.yml'' = Inr ''compose without workers''
   \<and> yamlLoad demoEnv ''compose without workers'' = Some composeDoc1
   \<and> map fst (filter (\<lambda>kv. marked (snd kv)) demoServices)
       = [''pushkinworkera'', ''pushkinworkerb'', ''pushkinworkerc'']
   \<and> map fst (filter (\<lambda>kv. \<not> marked (snd kv)) demoServices) = [''db'']"
proof -
  let ?s' = "snd (cleanUpSync demoEnv ''/core'' (initial demoFs))"
  have "fst (cleanUpSync demoEnv ''/core'' (initial demoFs)) = None"
    by code_simp
  then have run: "cleanUpSync demoEnv ''/core'' (initial demoFs) = (None, ?s')"
    by (metis prod.collapse)
  have ld: "loadCompose demoEnv (path_join ''/core'' ''docker-compose.dev.yml'') (initial demoFs)
      = Inr (JObj demoProps)"
    by code_simp
  have svc: "map_of demoProps ''services'' = Some (JObj demoServices)"
    by code_simp
  have dist: "distinct (map fst demoServices)"
    by code_simp
  from C7_managed_services_removed [OF run ld svc dist] obtain t where
    rd: "readFileSync (fs ?s') (path_join ''/core'' ''docker-compose.dev.yml'') = Inr t" and
    dump: "yamlDump demoEnv (JObj (AList.update ''services''
             (JObj (filter (\<lambda>kv. \<not> marked (snd kv)) demoServices)) demoProps)) = Some t"
    by blast
  have "yamlDump demoEnv (JObj (AList.update ''services''
             (JObj (filter (\<lambda>kv. \<not> marked (snd kv)) demoServices)) demoProps))
      = Some ''compose without workers''"
    by code_simp
  with dump have t: "t = ''compose without workers''"
    by simp
  have p: "path_join ''/core'' ''docker-compose.dev.yml'' = ''/core/docker-compose.dev.yml''"
    by (simp add: path_join_def)
  have a: "readFileSync (fs ?s') ''/core/docker-compose.dev.yml'' = Inr ''compose without workers''"
    using rd unfolding t p .
  have b: "yamlLoad demoEnv ''compose without workers'' = Some composeDoc1"
    by code_simp
  have c: "map fst (filter (\<lambda>kv. marked (snd kv)) demoServices)
       = [''pushkinworkera'', ''pushkinworkerb'', ''pushkinworkerc'']"
    by code_simp
  have d: "map fst (filter (\<lambda>kv. \<not> marked (snd kv)) demoServices) = [''db'']"
    by code_simp
  from a b c d show ?thesis by (intro conjI)
qed
























subsection \<open>The task counters\<close>


lemma count_emit:
  "length (filter P (trace (emit ev s))) = length (filter P (trace s)) + (if P ev then 1 else 0)"
  by (simp add: emit_def)

lemma link_effect:
  "tasks (link E coreDir s) = tasks s"
  "failures (link E coreDir s) = failures s"
  "linkings (link E coreDir s) = Suc (linkings s)"
  "scopes (link E coreDir s) = scopes s"
  "apiFinished expDir (link E coreDir s) = apiFinished expDir s"
  by (simp_all add: link_def Let_def emit_def failures_def linkings_def apiFinished_def)

lemma fail_effect:
  "tasks (fail reason err s) = tasks s"
  "failures (fail reason err s) = Suc (failures s)"
  "linkings (fail reason err s) = linkings s"
  "scopes (fail reason err s) = scopes s"
  "apiFinished expDir (fail reason err s) = apiFinished expDir s"
  by (simp_all add: fail_def emit_def failures_def linkings_def apiFinished_def)

lemma butlast_short: "(butlast xs = []) = (length xs \<le> 1)"
  by (cases xs rule: rev_cases) auto

lemma finishTask_cases:
  "finishTask E coreDir s =
     (if length (tasks s) \<le> 1 then link E coreDir (s\<lparr>tasks := []\<rparr>)
      else s\<lparr>tasks := butlast (tasks s)\<rparr>)"
proof (cases "length (tasks s) \<le> 1")
  case True
  then have "butlast (tasks s) = []" by (simp add: butlast_short)
  then show ?thesis using True by (simp add: finishTask_def Let_def)
next
  case False
  then have "butlast (tasks s) \<noteq> []" by (simp add: butlast_short)
  then show ?thesis using False by (simp add: finishTask_def Let_def)
qed

lemma tasks_update_effect:
  "failures (s\<lparr>tasks := ts\<rparr>) = failures s"
  "linkings (s\<lparr>tasks := ts\<rparr>) = linkings s"
  "apiFinished expDir (s\<lparr>tasks := ts\<rparr>) = apiFinished expDir s"
  by (simp_all add: failures_def linkings_def apiFinished_def)

lemma finishTask_effect:
  "length (tasks (finishTask E coreDir s)) = length (tasks s) - 1"
  "failures (finishTask E coreDir s) = failures s"
  "linkings (finishTask E coreDir s) = linkings s + (if length (tasks s) \<le> 1 then 1 else 0)"
  "scopes (finishTask E coreDir s) = scopes s"
  "apiFinished expDir (finishTask E coreDir s) = apiFinished expDir s"
  by (simp_all add: finishTask_cases link_effect tasks_update_effect)

lemma top_counter:
  "length (tasks s) = N \<Longrightarrow>
     failures (topOps E coreDir cs s) = failures s + failCalls cs
     \<and> linkings (topOps E coreDir cs s) = linkings s + (decrements cs - (N - 1))"
proof (induction cs arbitrary: s N)
  case Nil
  then show ?case by (simp add: failCalls_def decrements_def)
next
  case (Cons c cs)
  show ?case
  proof (cases c)
    case Decrement
    have "length (tasks (finishTask E coreDir s)) = N - 1"
      using Cons.prems by (simp add: finishTask_effect)
    from Cons.IH [OF this] Cons.prems Decrement show ?thesis
      by (auto simp: finishTask_effect failCalls_def decrements_def)
  next
    case (Failure reason err)
    have "length (tasks (fail reason err s)) = N"
      using Cons.prems by (simp add: fail_effect)
    from Cons.IH [OF this] Failure show ?thesis
      by (auto simp: fail_effect failCalls_def decrements_def)
  qed
qed


lemma getScope_cong: "scopes s = scopes s' \<Longrightarrow> getScope expDir s = getScope expDir s'"
  by (simp add: getScope_def)

lemma getScope_setScope: "getScope expDir (setScope expDir sc s) = sc"
  by (simp add: getScope_def setScope_def update_conv')

lemma setScope_effect:
  "failures (setScope expDir sc s) = failures s"
  "apiFinished x (setScope expDir sc s) = apiFinished x s"
  by (simp_all add: setScope_def failures_def apiFinished_def)

lemma emit_effect:
  "scopes (emit ev s) = scopes s"
  "failures (emit ev s) = failures s + (if isErrorCallback ev then 1 else 0)"
  "apiFinished x (emit ev s)
     = apiFinished x s + (if ev = Log (''Finished '' @ x @ '' API'') then 1 else 0)"
  by (simp_all add: emit_def failures_def apiFinished_def)

lemma newApiControllers_effect:
  "scopes (s\<lparr>newApiControllers := v\<rparr>) = scopes s"
  "failures (s\<lparr>newApiControllers := v\<rparr>) = failures s"
  "apiFinished x (s\<lparr>newApiControllers := v\<rparr>) = apiFinished x s"
  by (simp_all add: failures_def apiFinished_def)

lemma apiDone_ok_effect:
  "scopes (apiDone E coreDir expDir (Inr c) s) = scopes s"
  "failures (apiDone E coreDir expDir (Inr c) s) = failures s"
  "apiFinished expDir (apiDone E coreDir expDir (Inr c) s) = Suc (apiFinished expDir s)"
  by (simp_all add: finishTask_effect emit_effect newApiControllers_effect)

lemma failApi_effect:
  "scopes (failApi E coreDir expDir reason err s) = scopes s"
  "failures (failApi E coreDir expDir reason err s) = Suc (failures s)"
  "apiFinished expDir (failApi E coreDir expDir reason err s) = apiFinished expDir s"
  by (simp_all add: failApi_def fail_effect)

lemma finishTaskApi_effect:
  "length (fst (getScope expDir (finishTaskApi E coreDir expDir s)))
     = length (fst (getScope expDir s)) - 1"
  "failures (finishTaskApi E coreDir expDir s) = failures s"
  "apiFinished expDir (finishTaskApi E coreDir expDir s)
     = apiFinished expDir s + (if length (fst (getScope expDir s)) \<le> 1 then 1 else 0)"
proof -
  let ?sc = "(butlast (fst (getScope expDir s)), snd (getScope expDir s))"
  let ?s' = "setScope expDir ?sc s"
  have g: "getScope expDir ?s' = ?sc"
    by (rule getScope_setScope)
  have fire: "(length (fst (getScope expDir ?s')) = 0) = (length (fst (getScope expDir s)) \<le> 1)"
    by (simp add: g butlast_short)
  have ft: "finishTaskApi E coreDir expDir s =
      (if length (fst (getScope expDir s)) \<le> 1
       then apiDone E coreDir expDir (Inr (snd (getScope expDir s))) ?s' else ?s')"
    unfolding finishTaskApi_def Let_def fire by (simp add: g del: apiDone.simps)
  have sc: "getScope expDir (apiDone E coreDir expDir (Inr c) ?s') = ?sc" for c
    using getScope_cong [OF apiDone_ok_effect(1), of expDir E coreDir expDir c ?s'] g by simp
  show "length (fst (getScope expDir (finishTaskApi E coreDir expDir s)))
     = length (fst (getScope expDir s)) - 1"
    by (simp add: ft sc g del: apiDone.simps)
  show "failures (finishTaskApi E coreDir expDir s) = failures s"
    by (simp add: ft apiDone_ok_effect setScope_effect del: apiDone.simps)
  show "apiFinished expDir (finishTaskApi E coreDir expDir s)
     = apiFinished expDir s + (if length (fst (getScope expDir s)) \<le> 1 then 1 else 0)"
    by (simp add: ft apiDone_ok_effect setScope_effect del: apiDone.simps)
qed

lemma api_counter:
  "length (fst (getScope expDir s)) = N \<Longrightarrow>
     failures (apiOps E coreDir expDir cs s) = failures s + failCalls cs
     \<and> apiFinished expDir (apiOps E coreDir expDir cs s)
         = apiFinished expDir s + (decrements cs - (N - 1))"
proof (induction cs arbitrary: s N)
  case Nil
  then show ?case by (simp add: failCalls_def decrements_def)
next
  case (Cons c cs)
  show ?case
  proof (cases c)
    case Decrement
    have "length (fst (getScope expDir (finishTaskApi E coreDir expDir s))) = N - 1"
      using Cons.prems by (simp add: finishTaskApi_effect)
    from Cons.IH [OF this] Cons.prems Decrement show ?thesis
      by (auto simp: finishTaskApi_effect failCalls_def decrements_def)
  next
    case (Failure reason err)
    have "length (fst (getScope expDir (failApi E coreDir expDir reason err s))) = N"
      using Cons.prems getScope_cong [OF failApi_effect(1), of expDir E coreDir expDir reason err s]
      by simp
    from Cons.IH [OF this] Failure show ?thesis
      by (auto simp: failApi_effect failCalls_def decrements_def)
  qed
qed

text \<open>
  C1 (as amended). On either counter, started with \<open>N\<close> tasks and driven by any
  sequence of \<open>finishTask\<close> and \<open>fail\<close> calls: every \<open>fail\<close> call fires the
  failure continuation once, and the success continuation fires once for every
  \<open>finishTask\<close> call from the \<open>N\<close>-th on (from the first on when \<open>N = 0\<close>),
  whatever \<open>fail\<close> calls came before: \<open>decrements cs - (N - 1)\<close> times in all.
  So with no \<open>fail\<close> call and \<open>N \<ge> 1\<close> the success continuation fires exactly
  once, on the \<open>N\<close>-th \<open>finishTask\<close> and not before; and the first \<open>fail\<close>
  call fires the failure continuation. There is no latch.
\<close>

theorem C1_counter_firings:
  "(length (tasks s) = N \<longrightarrow>
      failures (topOps E coreDir cs s) = failures s + failCalls cs
      \<and> linkings (topOps E coreDir cs s) = linkings s + (decrements cs - (N - 1)))
   \<and> (length (fst (getScope expDir s)) = N \<longrightarrow>
      failures (apiOps E coreDir expDir cs s) = failures s + failCalls cs
      \<and> apiFinished expDir (apiOps E coreDir expDir cs s)
          = apiFinished expDir s + (decrements cs - (N - 1)))"
  using top_counter [of s N E coreDir cs] api_counter [of expDir s N E coreDir cs]
  by blast

theorem C1_counter_firings_witness:
  "length (tasks (startTask (startTask (initial [])))) = 2
   \<and> linkings (topOps demoEnv ''/core'' [Decrement] (startTask (startTask (initial [])))) = 0
   \<and> linkings (topOps demoEnv ''/core'' [Decrement, Decrement] (startTask (startTask (initial [])))) = 1
   \<and> failures (topOps demoEnv ''/core'' [Decrement, Decrement] (startTask (startTask (initial [])))) = 0"
proof -
  let ?s = "startTask (startTask (initial []))"
  have len: "length (tasks ?s) = 2"
    by (simp add: startTask_def initial_def)
  have zero: "failures ?s = 0" "linkings ?s = 0"
    by (simp_all add: startTask_def initial_def failures_def linkings_def)
  have one: "linkings (topOps demoEnv ''/core'' [Decrement] ?s) = 0"
    using C1_counter_firings [of ?s 2 demoEnv "''/core''" "[Decrement]" "''/experiments/quiz''"] len zero
    by (simp add: decrements_def)
  have two: "linkings (topOps demoEnv ''/core'' [Decrement, Decrement] ?s) = 1
      \<and> failures (topOps demoEnv ''/core'' [Decrement, Decrement] ?s) = 0"
    using C1_counter_firings [of ?s 2 demoEnv "''/core''" "[Decrement, Decrement]" "''/experiments/quiz''"]
      len zero
    by (simp add: decrements_def failCalls_def)
  from len one two show ?thesis by simp
qed

text \<open>
  C1 as stated fails. With one task outstanding, \<open>fail\<close> followed by
  \<open>finishTask\<close> fires the failure continuation and then the success continuation;
  two \<open>fail\<close> calls fire the failure continuation twice; a \<open>finishTask\<close> call
  after the success continuation has fired fires it again.
\<close>

theorem C1_no_latch_counterexample:
  "trace (topOps demoEnv ''/core''
            [Failure ''Failed to prep worker for /experiments/quiz'' (JsErr ''Error'' ''boom''), Decrement]
            (startTask (initial [])))
     = [Callback (Some (JsErr ''Error'' ''Failed to prep worker for /experiments/quiz: Error: boom'')),
        Log ''Linking components'']
   \<and> failures (topOps demoEnv ''/core''
            [Failure ''a'' (JsErr ''Error'' ''boom''), Failure ''b'' (JsErr ''Error'' ''boom'')]
            (startTask (initial []))) = 2
   \<and> linkings (topOps demoEnv ''/core'' [Decrement, Decrement] (startTask (initial []))) = 2"
  by code_simp

subsection \<open>packAndInstall\<close>




lemma packStep_rank: "rank (fst (packStep E packDir installDir op s)) < rank (Started op)"
  by (cases op)
     (auto simp: Let_def drawUuid_def execSync_def split: option.splits sum.splits prod.splits)

lemma packNext_rank:
  assumes le: "rank (fst r) \<le> 3"
  shows "rank (fst (packNext E packDir installDir r)) \<le> rank (fst r) - 1"
proof (cases r)
  case (Pair res s)
  show ?thesis
  proof (cases res)
    case (Started op)
    have "rank (fst (packStep E packDir installDir op s)) < rank (Started op)"
      by (rule packStep_rank)
    then show ?thesis
      using Pair Started by (simp add: packNext_def)
  qed (use Pair le in \<open>simp_all add: packNext_def\<close>)
qed


lemma packToEnd_ended: "rank (fst (packToEnd E packDir installDir s)) = 0"
proof -
  let ?r0 = "packAndInstall E packDir installDir s"
  let ?r1 = "packNext E packDir installDir ?r0"
  let ?r2 = "packNext E packDir installDir ?r1"
  let ?r3 = "packNext E packDir installDir ?r2"
  have r0: "rank (fst ?r0) \<le> 3"
    by (simp add: packAndInstall_def Let_def split: sum.splits)
  from packNext_rank [of ?r0 E packDir installDir, OF r0] r0 have r1: "rank (fst ?r1) \<le> 2" by simp
  then have "rank (fst ?r1) \<le> 3" by simp
  from packNext_rank [of ?r1 E packDir installDir, OF this] r1 have r2: "rank (fst ?r2) \<le> 1" by simp
  then have "rank (fst ?r2) \<le> 3" by simp
  from packNext_rank [of ?r2 E packDir installDir, OF this] r2 have "rank (fst ?r3) \<le> 0" by simp
  then show ?thesis by (simp add: packToEnd_def)
qed


text \<open>
  C5 does not hold of the code. Whatever the environment and the component,
  \<open>packAndInstall\<close> followed to its end never calls its callback with a name: the
  chain ends with an error callback or with no callback at all (the general part).
  On the controller of \<open>quiz\<close>, with every tool succeeding, it ends after
  \<open>npm pack\<close> with no callback: \<open>package.json\<close> is left with the generated
  name, the backup is left beside it, and nothing has been moved into the staging
  directory.
\<close>

theorem C5_callback_never_gets_name:
  "fst (packToEnd E packDir installDir s) \<noteq> Succeeded moduleName
   \<and> fst (packToEnd E packDir installDir s) \<noteq> Started op
   \<and> fst quizPacked = Ended
   \<and> uncaught (snd quizPacked) = None
   \<and> trace (snd quizPacked)
       = [Exec ''npm run build'' ''/experiments/quiz/api'',
          ExecSync ''npm pack'' ''/experiments/quiz/api'']
   \<and> readFileSync quizFs ''/experiments/quiz/api/package.json''
       = Inr ''{name: quiz-api, version: 1.0.0}''
   \<and> readFileSync (fs (snd quizPacked)) ''/experiments/quiz/api/package.json''
       = Inr ''{name: pushkinComponent00000000000040008000000000000000, version: 1.0.0}''
   \<and> readFileSync (fs (snd quizPacked)) ''/experiments/quiz/api/package.json.bak''
       = Inr ''{name: quiz-api, version: 1.0.0}''
   \<and> readdirSync (fs (snd quizPacked)) ''/core/api/tempPackages''
       = readdirSync quizFs ''/core/api/tempPackages''"
proof -
  have g: "fst (packToEnd E packDir installDir s) \<noteq> Succeeded moduleName
      \<and> fst (packToEnd E packDir installDir s) \<noteq> Started op"
    using packToEnd_ended [of E packDir installDir s]
    by (cases op) auto
  have c: "fst quizPacked = Ended
   \<and> uncaught (snd quizPacked) = None
   \<and> trace (snd quizPacked)
       = [Exec ''npm run build'' ''/experiments/quiz/api'',
          ExecSync ''npm pack'' ''/experiments/quiz/api'']
   \<and> readFileSync quizFs ''/experiments/quiz/api/package.json''
       = Inr ''{name: quiz-api, version: 1.0.0}''
   \<and> readFileSync (fs (snd quizPacked)) ''/experiments/quiz/api/package.json''
       = Inr ''{name: pushkinComponent00000000000040008000000000000000, version: 1.0.0}''
   \<and> readFileSync (fs (snd quizPacked)) ''/experiments/quiz/api/package.json.bak''
       = Inr ''{name: quiz-api, version: 1.0.0}''
   \<and> readdirSync (fs (snd quizPacked)) ''/core/api/tempPackages''
       = readdirSync quizFs ''/core/api/tempPackages''"
    by code_simp
  from g c show ?thesis by (intro conjI) simp_all
qed

subsection \<open>The default export\<close>

lemma run_idle: "pending s = [] \<Longrightarrow> run E coreDir sched s = s"
  by (induction sched) (simp_all add: complete_def)

text \<open>
  C4 does not hold of the code. \<open>prepApi\<close> with an empty list of controllers
  returns without calling its callback and without starting anything that could call
  it later (the general part). The default export on an experiments directory with no
  entry returns the same way: no callback, no linking step, nothing in flight, and no
  schedule of the event loop changes that.
\<close>

theorem C4_no_tasks_no_completion:
  "prepApi E expDir (JArr []) coreDir s = setScope expDir ([], []) s
   \<and> trace (prepApi E expDir (JArr []) coreDir s) = trace s
   \<and> pending (prepApi E expDir (JArr []) coreDir s) = pending s
   \<and> readdirSync demoFs ''/experiments'' = Inr []
   \<and> filter isCallback (trace emptyRun) = []
   \<and> linkings emptyRun = 0
   \<and> uncaught emptyRun = None
   \<and> pending emptyRun = []
   \<and> (\<forall>sched. run demoEnv ''/core'' sched emptyRun = emptyRun)"
proof -
  have a: "prepApi E expDir (JArr []) coreDir s = setScope expDir ([], []) s"
    by (simp add: prepApi_def)
  have b: "trace (setScope expDir ([], []) s) = trace s" "pending (setScope expDir ([], []) s) = pending s"
    by (simp_all add: setScope_def)
  have c: "readdirSync demoFs ''/experiments'' = Inr []
   \<and> filter isCallback (trace emptyRun) = []
   \<and> linkings emptyRun = 0
   \<and> uncaught emptyRun = None
   \<and> pending emptyRun = []"
    by code_simp
  then have d: "\<forall>sched. run demoEnv ''/core'' sched emptyRun = emptyRun"
    by (simp add: run_idle)
  from a b c d show ?thesis by simp
qed


subsection \<open>The callback of the default export\<close>
text \<open>
  No function of the module calls the callback of the default export without an error:
  each leaves \<open>completed\<close> as it found it.
\<close>

named_theorems quiet

lemma completed_emit [quiet]: "completed (emit ev s) = (ev = Callback None \<or> completed s)"
  by (auto simp: completed_def emit_def)

lemma completed_updates [quiet]:
  "completed (s\<lparr>fs := a\<rparr>) = completed s"
  "completed (s\<lparr>drawn := b\<rparr>) = completed s"
  "completed (s\<lparr>uncaught := c\<rparr>) = completed s"
  "completed (s\<lparr>pending := d\<rparr>) = completed s"
  "completed (s\<lparr>tasks := e\<rparr>) = completed s"
  "completed (s\<lparr>newApiControllers := f\<rparr>) = completed s"
  "completed (s\<lparr>newWebPageIncludes := g\<rparr>) = completed s"
  "completed (s\<lparr>newWorkerServices := h\<rparr>) = completed s"
  "completed (s\<lparr>scopes := i\<rparr>) = completed s"
  by (simp_all add: completed_def)

lemma completed_andThen:
  assumes "\<And>t. completed (snd (f t)) = completed t"
  shows "completed (snd (andThen r f)) = completed (snd r)"
  using assms by (cases r) (auto simp: andThen_def split: option.splits)

lemma completed_execSync [quiet]: "completed (snd (execSync E cmd cwd s)) = completed s"
  by (simp add: execSync_def quiet)

lemma completed_uninstall [quiet]: "completed (uninstall E cwd what m s) = completed s"
proof -
  obtain r t where e: "execSync E (''npm uninstall '' @ toStr m @ '' --save'') cwd s = (r, t)"
    by (cases "execSync E (''npm uninstall '' @ toStr m @ '' --save'') cwd s") auto
  with completed_execSync [of E "''npm uninstall '' @ toStr m @ '' --save''" cwd s]
  have "completed t = completed s" by simp
  with e show ?thesis by (cases r) (simp_all add: uninstall_def quiet)
qed

lemma completed_uninstallControllers [quiet]:
  "completed (snd (uninstallControllers E cwd cs s)) = completed s"
  by (induction cs arbitrary: s) (auto simp: quiet split: sum.splits)

lemma completed_uninstallPages [quiet]: "completed (uninstallPages E cwd ps s) = completed s"
  by (induction ps arbitrary: s) (auto simp: quiet)

lemma completed_writeFileSyncS [quiet]: "completed (snd (writeFileSyncS p c s)) = completed s"
  by (auto simp: writeFileSyncS_def quiet split: sum.splits)

lemma completed_resetControllers [quiet]: "completed (snd (resetControllers E coreDir s)) = completed s"
  by (auto simp: resetControllers_def Let_def quiet completed_andThen
      split: sum.splits option.splits jsval.splits)

lemma completed_resetWebPages [quiet]: "completed (snd (resetWebPages E coreDir s)) = completed s"
  by (auto simp: resetWebPages_def Let_def quiet split: sum.splits)

lemma completed_unlinkFiles [quiet]: "completed (snd (unlinkFiles dir names s)) = completed s"
  by (induction names arbitrary: s) (auto simp: Let_def quiet split: sum.splits)

lemma completed_cleanDir [quiet]: "completed (snd (cleanDir dir s)) = completed s"
  by (auto simp: cleanDir_def quiet split: sum.splits)

lemma completed_removeTempPackages [quiet]: "completed (removeTempPackages coreDir s) = completed s"
proof -
  let ?r = "andThen (cleanDir (path_join coreDir ''api/tempPackages'')
                      (emit (Log ''Cleaning temporary files'') s))
             (cleanDir (path_join coreDir ''front-end/tempPackages''))"
  have "completed (snd ?r) = completed s"
    by (simp add: completed_andThen quiet)
  then show ?thesis
    by (cases ?r) (auto simp: removeTempPackages_def quiet split: option.splits)
qed

lemma completed_removeWorkers [quiet]: "completed (snd (removeWorkers E coreDir s)) = completed s"
  by (auto simp: removeWorkers_def Let_def quiet split: sum.splits option.splits)

lemma completed_cleanUpSync [quiet]: "completed (snd (cleanUpSync E coreDir s)) = completed s"
  by (simp add: cleanUpSync_def completed_andThen quiet)

lemma completed_throwS [quiet]: "completed (throwS e s) = completed s"
  by (simp add: throwS_def quiet)

lemma completed_drawUuid [quiet]: "completed (snd (drawUuid E s)) = completed s"
  by (simp add: drawUuid_def quiet)

lemma completed_packAndInstall [quiet]:
  "completed (snd (packAndInstall E packDir installDir s)) = completed s"
  by (auto simp: packAndInstall_def Let_def quiet split: sum.splits)

lemma completed_packStep [quiet]:
  "completed (snd (packStep E packDir installDir op s)) = completed s"
proof (cases op)
  case ReadPackageJson
  then show ?thesis
    by (auto simp: Let_def drawUuid_def quiet split: sum.splits option.splits prod.splits)
next
  case (WritePackageJson u d)
  then show ?thesis
    by (auto simp: quiet split: sum.splits)
next
  case (NpmRunBuild u)
  have "completed (snd (execSync E ''npm pack'' packDir s)) = completed s"
    by (rule completed_execSync)
  with NpmRunBuild show ?thesis
    by (cases "execSync E ''npm pack'' packDir s") (auto simp: quiet split: option.splits)
qed

lemma completed_fail [quiet]: "completed (fail reason err s) = completed s"
  by (simp add: fail_def quiet)

lemma completed_link [quiet]: "completed (link E coreDir s) = completed s"
  by (simp add: link_def Let_def quiet)

lemma completed_finishTask [quiet]: "completed (finishTask E coreDir s) = completed s"
  by (simp add: finishTask_def Let_def quiet)

lemma completed_startTask [quiet]: "completed (startTask s) = completed s"
  by (simp add: startTask_def quiet)

lemma completed_apiDone [quiet]: "completed (apiDone E coreDir expDir r s) = completed s"
  by (cases r) (simp_all add: quiet)

lemma completed_webDone [quiet]: "completed (webDone E coreDir expDir r s) = completed s"
  by (cases r) (simp_all add: quiet)

lemma completed_workerDone [quiet]: "completed (workerDone E coreDir expDir r s) = completed s"
  by (cases r) (simp_all add: quiet)

lemma completed_setScope [quiet]: "completed (setScope expDir sc s) = completed s"
  by (simp add: setScope_def quiet)

lemma completed_startTaskApi [quiet]: "completed (startTaskApi expDir s) = completed s"
  by (simp add: startTaskApi_def quiet)

lemma completed_failApi [quiet]: "completed (failApi E coreDir expDir reason err s) = completed s"
  by (simp add: failApi_def quiet del: apiDone.simps)

lemma completed_finishTaskApi [quiet]: "completed (finishTaskApi E coreDir expDir s) = completed s"
  by (simp add: finishTaskApi_def Let_def quiet del: apiDone.simps)

lemma completed_kontCall [quiet]: "completed (kontCall E coreDir k r s) = completed s"
  by (cases k; cases r) (simp_all add: Let_def quiet del: apiDone.simps webDone.simps)

lemma completed_deliver [quiet]:
  "completed (deliver E coreDir packDir installDir k r) = completed (snd r)"
  by (cases r) (auto simp: deliver_def quiet split: packres.splits)

lemma completed_prepControllers [quiet]:
  "completed (prepControllers E expDir coreDir cs s) = completed s"
  by (induction cs arbitrary: s) (auto simp: Let_def quiet split: sum.splits)

lemma completed_prepApi [quiet]: "completed (prepApi E expDir controllerConfigs coreDir s) = completed s"
  by (auto simp: prepApi_def Let_def quiet split: jsval.splits)

lemma completed_prepWeb [quiet]: "completed (prepWeb E expDir expConfig coreDir s) = completed s"
  by (auto simp: prepWeb_def Let_def quiet split: sum.splits)

lemma completed_prepWorker [quiet]: "completed (prepWorker E expDir expConfig s) = completed s"
  by (auto simp: prepWorker_def Let_def drawUuid_def quiet split: sum.splits prod.splits)

lemma completed_dockerDone [quiet]:
  "completed (dockerDone E coreDir expDir cmd expConfig workerName s) = completed s"
  by (simp add: dockerDone_def Let_def quiet del: workerDone.simps)

lemma completed_includeInModuleList [quiet]:
  "completed (snd (includeInModuleList importName listAppendix file s)) = completed s"
  by (auto simp: includeInModuleList_def Let_def quiet split: sum.splits)

lemma completed_includeAll [quiet]: "completed (snd (includeAll file incs s)) = completed s"
  by (induction incs arbitrary: s) (simp_all add: completed_andThen quiet)

lemma execSync_eqD: "execSync E cmd cwd s = (r, t) \<Longrightarrow> t = emit (ExecSync cmd cwd) s"
  by (auto simp: execSync_def)

lemma completed_rebuild [quiet]: "completed (rebuild E coreDir s) = completed s"
  by (auto simp: rebuild_def Let_def quiet split: prod.splits option.splits dest!: execSync_eqD)

lemma completed_controllersWritten [quiet]:
  "completed (controllersWritten E coreDir content s) = completed s"
proof (cases "writeFileSync (fs s) (path_join coreDir ''api/src/controllers.json'') content")
  case (Inl err)
  then show ?thesis by (simp add: controllersWritten_def quiet)
next
  case (Inr f)
  let ?inc = "includeAll (path_join coreDir ''front-end/src/experiments.js'')
                (newWebPageIncludes s) (s\<lparr>fs := f\<rparr>)"
  have i: "completed (snd ?inc) = completed s"
    by (simp add: quiet)
  show ?thesis
    using Inr i
    by (cases ?inc)
       (auto simp: controllersWritten_def Let_def quiet split: option.splits sum.splits)
qed

lemma completed_composeWritten [quiet]: "completed (composeWritten coreDir content s) = completed s"
  by (auto simp: composeWritten_def quiet split: sum.splits)

lemma completed_thenDo:
  assumes "\<And>t. completed (f t) = completed t" "\<And>t. completed (g t) = completed t"
  shows "completed (thenDo f g s) = completed s"
  using assms by (simp add: thenDo_def Let_def)

lemma completed_prepOne [quiet]: "completed (prepOne E coreDir expDir s) = completed s"
  by (auto simp: prepOne_def Let_def quiet completed_thenDo split: sum.splits)

lemma completed_prepAll [quiet]: "completed (prepAll E experimentsDir coreDir ds s) = completed s"
  by (induction ds arbitrary: s) (simp_all add: completed_thenDo quiet)

lemma completed_prep [quiet]: "completed (prep E experimentsDir coreDir s) = completed s"
proof -
  let ?c = "cleanUpSync E coreDir (emit (Log ''Cleaning up old experiments'') s)"
  have "completed (snd ?c) = completed s"
    by (simp add: quiet)
  then show ?thesis
    by (cases ?c) (auto simp: prep_def quiet split: option.splits sum.splits)
qed

lemma completed_handle [quiet]: "completed (handle E coreDir p s) = completed s"
  by (cases p) (simp_all add: quiet)

lemma completed_complete [quiet]: "completed (complete E coreDir i s) = completed s"
  by (simp add: complete_def quiet)

lemma completed_run [quiet]: "completed (run E coreDir sched s) = completed s"
  by (induction sched arbitrary: s) (simp_all add: quiet)

lemma never_completed:
  "\<not> completed (run E coreDir sched (prep E experimentsDir coreDir (initial f)))"
  by (simp add: quiet) (simp add: completed_def initial_def)

text \<open>
  C2 does not hold of the code. In no run of the default export, whatever the
  environment, the directories and the schedule of the event loop, is the callback
  ever called without an error, and the linking step started in any state never calls
  it either (the general part). On the core directory as the cleanup leaves it, the
  linking step goes as follows: both writes succeed and both \<open>npm install *\<close> run;
  neither rebuild (\<open>npm run build\<close> in \<open>api\<close> or \<open>front-end\<close>) is ever
  started, nothing is in flight at the end, and no schedule changes that.
\<close>

theorem C2_rebuilds_never_start:
  "\<not> completed (run E coreDir sched (prep E experimentsDir coreDir (initial f)))
   \<and> completed (run E coreDir sched (finishTask E coreDir s)) = completed s
   \<and> pending (finishTask demoEnv ''/core'' (startTask (initial cleanFs))) = [PWriteControllers ''[]'']
   \<and> trace linkedRun
       = [Log ''Linking components'',
          Log ''Building core Pushkin with new experiment components'',
          ExecSync ''npm install *'' ''/core/api/tempPackages'',
          ExecSync ''npm install *'' ''/core/front-end/tempPackages'']
   \<and> readFileSync (fs linkedRun) ''/core/api/src/controllers.json'' = Inr ''[]''
   \<and> readFileSync (fs linkedRun) ''/core/docker-compose.dev.yml'' = Inr ''compose without workers''
   \<and> filter isCallback (trace linkedRun) = []
   \<and> uncaught linkedRun = None
   \<and> pending linkedRun = []
   \<and> (\<forall>sched. run demoEnv ''/core'' sched linkedRun = linkedRun)"
proof -
  have c: "pending (finishTask demoEnv ''/core'' (startTask (initial cleanFs))) = [PWriteControllers ''[]'']
   \<and> trace linkedRun
       = [Log ''Linking components'',
          Log ''Building core Pushkin with new experiment components'',
          ExecSync ''npm install *'' ''/core/api/tempPackages'',
          ExecSync ''npm install *'' ''/core/front-end/tempPackages'']
   \<and> readFileSync (fs linkedRun) ''/core/api/src/controllers.json'' = Inr ''[]''
   \<and> readFileSync (fs linkedRun) ''/core/docker-compose.dev.yml'' = Inr ''compose without workers''
   \<and> filter isCallback (trace linkedRun) = []
   \<and> uncaught linkedRun = None
   \<and> pending linkedRun = []"
    by code_simp
  then have d: "\<forall>sched. run demoEnv ''/core'' sched linkedRun = linkedRun"
    by (simp add: run_idle)
  have g: "completed (run E coreDir sched (finishTask E coreDir s)) = completed s"
    by (simp add: quiet)
  from never_completed [of E coreDir sched experimentsDir f] g c d show ?thesis
    by (intro conjI) simp_all
qed

text \<open>
  C3 does not hold of the code. With two experiment directories whose descriptor cannot
  be loaded, listed before a good one, the default export calls its callback with an
  error twice, once for each, and goes on: when it returns, the three preparations of
  the good experiment have been started (its \<open>docker build\<close> is the last event) and
  three tasks are counted.
\<close>

theorem C3_unloadable_descriptors_do_not_abort:
  "readdirSync brokenFs ''/experiments'' = Inr [''broken'', ''empty'', ''quiz'']
   \<and> loadConfig demoEnv ''/experiments/broken/config.yaml'' (initial brokenFs)
       = Inl (JsErr ''YAMLException'' ''safeLoad'')
   \<and> loadConfig demoEnv ''/experiments/empty/config.yaml'' (initial brokenFs)
       = Inl (sysErr ''ENOENT'' ''/experiments/empty/config.yaml'')
   \<and> filter isCallback (trace brokenRun)
       = [Callback (Some (JsErr ''Error''
            ''Failed to load config file for /experiments/broken: YAMLException: safeLoad'')),
          Callback (Some (JsErr ''Error''
            ''Failed to load config file for /experiments/empty: Error: ENOENT: /experiments/empty/config.yaml''))]
   \<and> last (trace brokenRun)
       = Exec ''docker build /experiments/quiz/worker -t pushkinworker00000000000040008000000000000000'' []
   \<and> length (pending brokenRun) = 3
   \<and> tasks brokenRun = [True, True, True]
   \<and> uncaught brokenRun = None"
  by code_simp

end
